theory Spec2Isabelle
  imports Complex_Main "HOL-Library.Word" "HOL-Library.AList"
begin

unbundle bit_operations_syntax

section \<open>JavaScript values used by the enrollment and verification core\<close>

text \<open>
  A JavaScript string is modelled as a \<^typ>\<open>string\<close>: one \<^typ>\<open>char\<close> stands for one code
  unit (restricted to the range 0..255), \<open>length\<close> is \<open>.length\<close> and \<open>@\<close> is \<open>+\<close> on
  strings. A thrown exception is a value of \<open>js_error\<close>; a function that can throw returns
  \<open>js_error + 'a\<close>, with \<open>Inl\<close> for the exception.
\<close>

datatype js_error = Error string | TypeError string

type_synonym byte = "8 word"

text \<open>\<open>String.prototype.charCodeAt\<close>: the code unit at an index, \<open>None\<close> (NaN) out of range.\<close>

definition charCodeAt :: "string \<Rightarrow> nat \<Rightarrow> nat option" where
  "charCodeAt s i = (if i < length s then Some (of_char (s ! i)) else None)"

text \<open>The operand conversion of the bitwise operators (ToInt32): NaN becomes 0.\<close>

definition toInt32 :: "nat option \<Rightarrow> 32 word" where
  "toInt32 v = (case v of None \<Rightarrow> 0 | Some n \<Rightarrow> word_of_nat n)"

section \<open>HashGenerator (assets/js/crypto/hash-generator.js)\<close>

definition hex_digits :: string where
  "hex_digits = ''0123456789abcdef''"

text \<open>\<open>byte.toString(16)\<close> for a byte: one or two lowercase hexadecimal digits.\<close>

definition toString16 :: "byte \<Rightarrow> string" where
  "toString16 b =
     (if unat b < 16 then [hex_digits ! unat b]
      else [hex_digits ! (unat b div 16), hex_digits ! (unat b mod 16)])"

text \<open>\<open>s.padStart(2, '0')\<close>.\<close>

definition padStart2 :: "string \<Rightarrow> string" where
  "padStart2 s = replicate (2 - length s) (CHR ''0'') @ s"

text \<open>\<open>bufferToHex\<close>: every byte becomes \<open>toString(16).padStart(2, '0')\<close>, the parts are joined.\<close>

definition bufferToHex :: "byte list \<Rightarrow> string" where
  "bufferToHex byteArray = concat (map (\<lambda>b. padStart2 (toString16 b)) byteArray)"

text \<open>\<open>new TextEncoder().encode(data)\<close>: UTF-8, for code units below 256.\<close>

definition utf8 :: "char \<Rightarrow> byte list" where
  "utf8 c =
     (let n = (of_char c :: nat)
      in if n < 128 then [word_of_nat n]
         else [word_of_nat (192 + n div 64), word_of_nat (128 + n mod 64)])"

definition encode :: "string \<Rightarrow> byte list" where
  "encode data = concat (map utf8 data)"

text \<open>
  \<open>crypto.subtle.digest(algorithm, buffer)\<close> is the platform's primitive: a parameter
  \<open>digest\<close> of the model, \<open>None\<close> when the platform rejects the call (an algorithm name it
  does not know). \<open>hash\<close> turns every failure into \<open>Error('Failed to generate ... hash')\<close>.
\<close>

type_synonym digest_fn = "string \<Rightarrow> byte list \<Rightarrow> byte list option"

definition hash :: "digest_fn \<Rightarrow> string \<Rightarrow> string \<Rightarrow> js_error + string" where
  "hash digest data algorithm =
     (let dataBuffer = encode data
      in case digest algorithm dataBuffer of
           Some hashBuffer \<Rightarrow> Inr (bufferToHex hashBuffer)
         | None \<Rightarrow> Inl (Error (''Failed to generate '' @ algorithm @ '' hash'')))"

definition hashWithSalt :: "digest_fn \<Rightarrow> string \<Rightarrow> string \<Rightarrow> string \<Rightarrow> js_error + string" where
  "hashWithSalt digest data salt algorithm =
     (let saltedData = data @ salt in hash digest saltedData algorithm)"

text \<open>
  \<open>compareHashes\<close> (the same body in HashGenerator and in both BiometricStorage classes).
  The loop is instrumented: beside the accumulator \<open>result\<close> it returns what it has read,
  in order: for each iteration the position \<open>i\<close> and the two code units
  \<open>hash1.charCodeAt(i)\<close> and \<open>hash2.charCodeAt(i)\<close> that it has combined into \<open>result\<close>.
\<close>

type_synonym char_read = "nat \<times> 32 word \<times> 32 word"

function compare_loop ::
  "string \<Rightarrow> string \<Rightarrow> nat \<Rightarrow> 32 word \<Rightarrow> char_read list \<Rightarrow> 32 word \<times> char_read list" where
  "compare_loop hash1 hash2 i result visited =
     (if i < length hash1
      then compare_loop hash1 hash2 (i + 1)
             (result OR (toInt32 (charCodeAt hash1 i) XOR toInt32 (charCodeAt hash2 i)))
             (visited @ [(i, toInt32 (charCodeAt hash1 i), toInt32 (charCodeAt hash2 i))])
      else (result, visited))"
  by pat_completeness auto
termination
  by (relation "measure (\<lambda>(hash1, hash2, i, result, visited). length hash1 - i)") auto

declare compare_loop.simps [simp del]

definition compareHashes_run :: "string \<Rightarrow> string \<Rightarrow> bool \<times> char_read list" where
  "compareHashes_run hash1 hash2 =
     (if hash1 = [] \<or> hash2 = [] then (False, [])
      else if length hash1 \<noteq> length hash2 then (False, [])
      else (let (result, visited) = compare_loop hash1 hash2 0 0 [] in (result = 0, visited)))"

definition compareHashes :: "string \<Rightarrow> string \<Rightarrow> bool" where
  "compareHashes hash1 hash2 = fst (compareHashes_run hash1 hash2)"

definition characters_read :: "string \<Rightarrow> string \<Rightarrow> char_read list" where
  "characters_read hash1 hash2 = snd (compareHashes_run hash1 hash2)"

section \<open>SaltGenerator (assets/js/crypto/salt-generator.js)\<close>

text \<open>
  The random source \<open>crypto.getRandomValues\<close>: the bytes it will deliver and how many have
  been drawn so far. Filling an array of \<open>n\<close> bytes draws the next \<open>n\<close>.
\<close>

record rng =
  rng_bytes :: "nat \<Rightarrow> byte"
  rng_drawn :: nat

definition getRandomValues :: "nat \<Rightarrow> rng \<Rightarrow> byte list \<times> rng" where
  "getRandomValues n r =
     (map (rng_bytes r) [rng_drawn r ..< rng_drawn r + n], r\<lparr>rng_drawn := rng_drawn r + n\<rparr>)"

definition minLength :: int where "minLength = 16"
definition maxLength :: int where "maxLength = 128"

definition arrayToHex :: "byte list \<Rightarrow> string" where
  "arrayToHex array = concat (map (\<lambda>byte. padStart2 (toString16 byte)) array)"

definition generate :: "int \<Rightarrow> rng \<Rightarrow> (js_error + string) \<times> rng" where
  "generate len r =
     (if len < minLength \<or> len > maxLength
      then (Inl (Error ''Salt length must be between 16 and 128 bytes''), r)
      else (let (array, r') = getRandomValues (nat len) r in (Inr (arrayToHex array), r')))"


section \<open>BiometricStorage: the data\<close>

text \<open>
  What the clock, the identifier generator and the browser hand to one call of the storage
  interface: \<open>Date.now()\<close>, \<open>new Date().toISOString()\<close>, the results of \<open>generateId()\<close>
  (enrollment id, and the \<open>iv\<close> and \<open>tag\<close> of the simulated encryption) and \<open>getDeviceInfo()\<close>.
\<close>

record env =
  env_now :: nat
  env_iso :: string
  env_id :: string
  env_iv :: string
  env_tag :: string
  env_device :: string

record metadata =
  md_enrollmentDate :: string
  md_deviceInfo :: string
  md_templateSize :: string
  md_confidence :: real
  md_lastUpdated :: "string option"

record enrollmentRecord =
  er_userId :: string
  er_enrollmentId :: string
  er_biometricType :: string
  er_hash :: string
  er_salt :: string
  er_algorithm :: string
  er_metadata :: metadata
  er_timestamp :: nat

text \<open>The \<open>data\<close> object of \<open>retrieveEnrollment\<close>: the record without its \<open>timestamp\<close>.\<close>

record enrollmentData =
  ed_userId :: string
  ed_enrollmentId :: string
  ed_hash :: string
  ed_salt :: string
  ed_algorithm :: string
  ed_biometricType :: string
  ed_metadata :: metadata

record logEntry =
  le_userId :: string
  le_timestamp :: nat
  le_success :: bool
  le_date :: string

record summary =
  su_userId :: string
  su_enrollmentId :: string
  su_biometricType :: string
  su_enrollmentDate :: string
  su_confidence :: real

text \<open>The argument \<open>biometricData\<close> of \<open>storeEnrollment\<close>; \<open>None\<close> is an absent property.\<close>

record biometricData =
  bd_type :: "string option"
  bd_hash :: string
  bd_salt :: string
  bd_algorithm :: "string option"
  bd_deviceInfo :: "string option"
  bd_templateSize :: "string option"
  bd_confidence :: "real option"

record updates =
  up_hash :: "string option"
  up_salt :: "string option"
  up_confidence :: "real option"

text \<open>The objects the interface returns; \<open>None\<close> is a property the object does not have.\<close>

record store_result =
  sr_success :: bool
  sr_enrollmentId :: string
  sr_userId :: string
  sr_timestamp :: nat

text \<open>
  In \<open>retrieve_result\<close>, \<open>rr_success = True\<close> with \<open>rr_data = None\<close> stands for a \<open>data\<close> object
  all of whose properties are \<open>undefined\<close> (the stored value parsed to something that is not
  an enrollment record).
\<close>

record retrieve_result =
  rr_success :: bool
  rr_error :: "string option"
  rr_data :: "enrollmentData option"

record verify_result =
  vr_success :: bool
  vr_verified :: bool
  vr_error :: "string option"
  vr_userId :: "string option"
  vr_timestamp :: "nat option"
  vr_metadata :: "metadata option"

record update_result =
  ur_success :: bool
  ur_error :: "string option"
  ur_userId :: "string option"
  ur_timestamp :: "nat option"

record delete_result =
  dr_success :: bool
  dr_userId :: string
  dr_deleted :: bool

text \<open>\<open>v || d\<close> on a string and on a number: the default replaces \<open>undefined\<close>, \<open>''\<close> and \<open>0\<close>.\<close>

definition or_str :: "string option \<Rightarrow> string \<Rightarrow> string" where
  "or_str v d = (case v of None \<Rightarrow> d | Some s \<Rightarrow> if s = [] then d else s)"

definition or_num :: "real option \<Rightarrow> real \<Rightarrow> real" where
  "or_num v d = (case v of None \<Rightarrow> d | Some x \<Rightarrow> if x = 0 then d else x)"

text \<open>\<open>if (v)\<close> on an optional string and number.\<close>

definition truthy_str :: "string option \<Rightarrow> bool" where
  "truthy_str v = (case v of None \<Rightarrow> False | Some s \<Rightarrow> s \<noteq> [])"

definition truthy_num :: "real option \<Rightarrow> bool" where
  "truthy_num v = (case v of None \<Rightarrow> False | Some x \<Rightarrow> x \<noteq> 0)"

text \<open>The record literal of \<open>storeEnrollment\<close> (the same in both classes).\<close>

definition make_record :: "env \<Rightarrow> string \<Rightarrow> biometricData \<Rightarrow> enrollmentRecord" where
  "make_record e userId biometricData =
     \<lparr>er_userId = userId,
      er_enrollmentId = env_id e,
      er_biometricType = or_str (bd_type biometricData) ''unknown'',
      er_hash = bd_hash biometricData,
      er_salt = bd_salt biometricData,
      er_algorithm = or_str (bd_algorithm biometricData) ''SHA-256'',
      er_metadata =
        \<lparr>md_enrollmentDate = env_iso e,
         md_deviceInfo = or_str (bd_deviceInfo biometricData) (env_device e),
         md_templateSize = or_str (bd_templateSize biometricData) ''unknown'',
         md_confidence = or_num (bd_confidence biometricData) 1,
         md_lastUpdated = None\<rparr>,
      er_timestamp = env_now e\<rparr>"

definition data_of :: "enrollmentRecord \<Rightarrow> enrollmentData" where
  "data_of record =
     \<lparr>ed_userId = er_userId record,
      ed_enrollmentId = er_enrollmentId record,
      ed_hash = er_hash record,
      ed_salt = er_salt record,
      ed_algorithm = er_algorithm record,
      ed_biometricType = er_biometricType record,
      ed_metadata = er_metadata record\<rparr>"

definition summary_of :: "enrollmentRecord \<Rightarrow> summary" where
  "summary_of record =
     \<lparr>su_userId = er_userId record,
      su_enrollmentId = er_enrollmentId record,
      su_biometricType = er_biometricType record,
      su_enrollmentDate = md_enrollmentDate (er_metadata record),
      su_confidence = md_confidence (er_metadata record)\<rparr>"

definition make_entry :: "env \<Rightarrow> string \<Rightarrow> bool \<Rightarrow> logEntry" where
  "make_entry e userId success =
     \<lparr>le_userId = userId, le_timestamp = env_now e, le_success = success, le_date = env_iso e\<rparr>"

text \<open>\<open>log.slice(-n)\<close>: the last \<open>n\<close> elements, the whole array when it is shorter.\<close>

definition slice_last :: "nat \<Rightarrow> 'a list \<Rightarrow> 'a list" where
  "slice_last n xs = drop (length xs - n) xs"

text \<open>\<open>log.push(entry)\<close> followed by the cut to the last 100 attempts.\<close>

definition push_capped :: "logEntry list \<Rightarrow> logEntry \<Rightarrow> logEntry list" where
  "push_capped log0 entry =
     (let log1 = log0 @ [entry] in if length log1 > 100 then slice_last 100 log1 else log1)"

definition not_found :: retrieve_result where
  "not_found = \<lparr>rr_success = False, rr_error = Some ''User not found'', rr_data = None\<rparr>"

text \<open>
  \<open>verifyBiometric\<close> has the same body in both classes; it is written once, over the
  class's own \<open>retrieveEnrollment\<close> and \<open>logVerificationAttempt\<close>. A stored hash that is
  \<open>undefined\<close> makes \<open>compareHashes\<close> return false at its first test.
\<close>

definition verifyBiometric ::
  "('st \<Rightarrow> string \<Rightarrow> js_error + retrieve_result) \<Rightarrow>
   (env \<Rightarrow> 'st \<Rightarrow> string \<Rightarrow> bool \<Rightarrow> 'st \<times> (js_error + unit)) \<Rightarrow>
   env \<Rightarrow> 'st \<Rightarrow> string \<Rightarrow> string \<Rightarrow> 'st \<times> (js_error + verify_result)" where
  "verifyBiometric retrieveEnrollment logVerificationAttempt e storage userId providedHash =
     (case retrieveEnrollment storage userId of
        Inl err \<Rightarrow> (storage, Inl err)
      | Inr enrollmentResult \<Rightarrow>
          if \<not> rr_success enrollmentResult
          then (storage, Inr \<lparr>vr_success = False, vr_verified = False,
                  vr_error = rr_error enrollmentResult, vr_userId = None,
                  vr_timestamp = None, vr_metadata = None\<rparr>)
          else
            (let match = (case rr_data enrollmentResult of
                            None \<Rightarrow> False
                          | Some d \<Rightarrow> compareHashes (ed_hash d) providedHash)
             in case logVerificationAttempt e storage userId match of
                  (storage', Inl err) \<Rightarrow> (storage', Inl err)
                | (storage', Inr _) \<Rightarrow>
                    (storage', Inr \<lparr>vr_success = True, vr_verified = match, vr_error = None,
                       vr_userId = Some userId, vr_timestamp = Some (env_now e),
                       vr_metadata = map_option ed_metadata (rr_data enrollmentResult)\<rparr>)))"

section \<open>BiometricStorage over an in-process Map (unnamed/part_001)\<close>

text \<open>
  \<open>this.storage\<close> is one \<open>Map\<close> from string keys to values, in insertion order: the
  simulated ciphertext of an enrollment record under the key \<open>userId\<close>, and the array of
  log entries under the key \<open>userId + '_log'\<close>. The ciphertext
  \<open>btoa(JSON.stringify(record))\<close> is represented by the record it decodes to: all code
  units of the strings of this model are below 256, so \<open>btoa\<close> accepts the text, and \<open>atob\<close>
  and \<open>JSON.parse\<close> give the record back. A record with a code unit above 255 is outside
  this model; there \<open>btoa\<close> throws, and \<open>storeEnrollment\<close> and \<open>updateEnrollment\<close> of this
  class with it, which the localStorage class does not.
\<close>

record encrypted =
  enc_payload :: enrollmentRecord
  enc_iv :: string
  enc_tag :: string

datatype mem_value = Enc encrypted | Arr "logEntry list"

type_synonym mem_storage = "(string \<times> mem_value) list"

definition mem_encrypt :: "env \<Rightarrow> enrollmentRecord \<Rightarrow> encrypted" where
  "mem_encrypt e data = \<lparr>enc_payload = data, enc_iv = env_iv e, enc_tag = env_tag e\<rparr>"

text \<open>
  \<open>decrypt\<close>: \<open>atob(x.encrypted)\<close> and \<open>JSON.parse\<close> inside \<open>try\<close>; for an array \<open>x.encrypted\<close>
  is \<open>undefined\<close>, \<open>atob\<close> throws and the function returns \<open>null\<close> (\<open>None\<close>).
\<close>

definition mem_decrypt :: "mem_value \<Rightarrow> enrollmentRecord option" where
  "mem_decrypt encryptedData =
     (case encryptedData of Enc x \<Rightarrow> Some (enc_payload x) | Arr _ \<Rightarrow> None)"

definition mem_storeEnrollment ::
  "env \<Rightarrow> mem_storage \<Rightarrow> string \<Rightarrow> biometricData \<Rightarrow> mem_storage \<times> store_result" where
  "mem_storeEnrollment e storage userId biometricData =
     (let enrollmentRecord = make_record e userId biometricData;
          encryptedRecord = mem_encrypt e enrollmentRecord
      in (AList.update userId (Enc encryptedRecord) storage,
          \<lparr>sr_success = True, sr_enrollmentId = er_enrollmentId enrollmentRecord,
           sr_userId = userId, sr_timestamp = er_timestamp enrollmentRecord\<rparr>))"

definition mem_retrieveEnrollment :: "mem_storage \<Rightarrow> string \<Rightarrow> js_error + retrieve_result" where
  "mem_retrieveEnrollment storage userId =
     (case map_of storage userId of
        None \<Rightarrow> Inr not_found
      | Some encryptedRecord \<Rightarrow>
          (case mem_decrypt encryptedRecord of
             None \<Rightarrow> Inl (TypeError ''Cannot read properties of null'')
           | Some record \<Rightarrow>
               Inr \<lparr>rr_success = True, rr_error = None, rr_data = Some (data_of record)\<rparr>))"

definition mem_logVerificationAttempt ::
  "env \<Rightarrow> mem_storage \<Rightarrow> string \<Rightarrow> bool \<Rightarrow> mem_storage \<times> (js_error + unit)" where
  "mem_logVerificationAttempt e storage userId success =
     (let logKey = userId @ ''_log''
      in case (case map_of storage logKey of None \<Rightarrow> Arr [] | Some v \<Rightarrow> v) of
           Enc _ \<Rightarrow> (storage, Inl (TypeError ''log.push is not a function''))
         | Arr log0 \<Rightarrow>
             (AList.update logKey (Arr (push_capped log0 (make_entry e userId success))) storage,
              Inr ()))"

definition mem_verifyBiometric ::
  "env \<Rightarrow> mem_storage \<Rightarrow> string \<Rightarrow> string \<Rightarrow> mem_storage \<times> (js_error + verify_result)" where
  "mem_verifyBiometric = verifyBiometric mem_retrieveEnrollment mem_logVerificationAttempt"

definition apply_updates :: "env \<Rightarrow> updates \<Rightarrow> enrollmentRecord \<Rightarrow> enrollmentRecord" where
  "apply_updates e u record =
     (let r1 = (if truthy_str (up_hash u) then record\<lparr>er_hash := the (up_hash u)\<rparr> else record);
          r2 = (if truthy_str (up_salt u) then r1\<lparr>er_salt := the (up_salt u)\<rparr> else r1);
          m2 = er_metadata r2;
          m3 = (if truthy_num (up_confidence u)
                then m2\<lparr>md_confidence := the (up_confidence u)\<rparr> else m2)
      in r2\<lparr>er_metadata := m3\<lparr>md_lastUpdated := Some (env_iso e)\<rparr>, er_timestamp := env_now e\<rparr>)"

definition mem_updateEnrollment ::
  "env \<Rightarrow> mem_storage \<Rightarrow> string \<Rightarrow> updates \<Rightarrow> mem_storage \<times> (js_error + update_result)" where
  "mem_updateEnrollment e storage userId u =
     (case mem_retrieveEnrollment storage userId of
        Inl err \<Rightarrow> (storage, Inl err)
      | Inr enrollmentResult \<Rightarrow>
          if \<not> rr_success enrollmentResult
          then (storage, Inr \<lparr>ur_success = False, ur_error = Some ''User not found'',
                  ur_userId = None, ur_timestamp = None\<rparr>)
          else
            (case Option.bind (map_of storage userId) mem_decrypt of
               None \<Rightarrow> (storage, Inl (TypeError ''Cannot read properties of null''))
             | Some record0 \<Rightarrow>
                 (let record = apply_updates e u record0;
                      encryptedRecord = mem_encrypt e record
                  in (AList.update userId (Enc encryptedRecord) storage,
                      Inr \<lparr>ur_success = True, ur_error = None, ur_userId = Some userId,
                        ur_timestamp = Some (er_timestamp record)\<rparr>))))"

definition mem_deleteEnrollment :: "mem_storage \<Rightarrow> string \<Rightarrow> mem_storage \<times> delete_result" where
  "mem_deleteEnrollment storage userId =
     (let existed = (map_of storage userId \<noteq> None)
      in (AList.delete userId storage,
          \<lparr>dr_success = existed, dr_userId = userId, dr_deleted = existed\<rparr>))"

text \<open>
  \<open>getAllEnrollments\<close> walks every entry of the Map. \<open>record.userId\<close> on the \<open>null\<close> that
  \<open>decrypt\<close> returns for a log array is a \<open>TypeError\<close>, which nothing catches.
\<close>

fun mem_getAll_loop :: "(string \<times> mem_value) list \<Rightarrow> summary list \<Rightarrow> js_error + summary list" where
  "mem_getAll_loop [] enrollments = Inr enrollments"
| "mem_getAll_loop ((userId, encryptedRecord) # rest) enrollments =
     (case mem_decrypt encryptedRecord of
        None \<Rightarrow> Inl (TypeError ''Cannot read properties of null'')
      | Some record \<Rightarrow> mem_getAll_loop rest (enrollments @ [summary_of record]))"

definition mem_getAllEnrollments :: "mem_storage \<Rightarrow> js_error + summary list" where
  "mem_getAllEnrollments storage = mem_getAll_loop storage []"

text \<open>\<open>this.storage.get(logKey) || []\<close>: whatever is stored under the log key, else \<open>[]\<close>.\<close>

definition mem_getVerificationHistory :: "mem_storage \<Rightarrow> string \<Rightarrow> mem_value" where
  "mem_getVerificationHistory storage userId =
     (let logKey = userId @ ''_log''
      in case map_of storage logKey of None \<Rightarrow> Arr [] | Some v \<Rightarrow> v)"


section \<open>BiometricStorage over localStorage (unnamed/part_002)\<close>

text \<open>
  \<open>localStorage\<close> maps string keys to strings, here JSON texts. A stored text is
  represented by what \<open>JSON.parse\<close> makes of it: an enrollment record (as
  \<open>storeEnrollment\<close> and \<open>updateEnrollment\<close> write it), an array of log entries (as
  \<open>logVerificationAttempt\<close> writes it), or a text that \<open>JSON.parse\<close> rejects with an
  exception. The record lives under \<open>'biometric-user-' + userId\<close>, the log under
  \<open>userId + '_log'\<close>; the list is in the order of \<open>localStorage.key(i)\<close>.
\<close>

datatype ls_value = JRecord enrollmentRecord | JLog "logEntry list" | JCorrupt

type_synonym localStorage = "(string \<times> ls_value) list"

definition user_key :: "string \<Rightarrow> string" where
  "user_key userId = ''biometric-user-'' @ userId"

definition startsWith :: "string \<Rightarrow> string \<Rightarrow> bool" where
  "startsWith key p = (take (length p) key = p)"

definition ls_storeEnrollment ::
  "env \<Rightarrow> localStorage \<Rightarrow> string \<Rightarrow> biometricData \<Rightarrow> localStorage \<times> store_result" where
  "ls_storeEnrollment e ls userId biometricData =
     (let enrollmentRecord = make_record e userId biometricData;
          key = user_key userId
      in (AList.update key (JRecord enrollmentRecord) ls,
          \<lparr>sr_success = True, sr_enrollmentId = er_enrollmentId enrollmentRecord,
           sr_userId = userId, sr_timestamp = er_timestamp enrollmentRecord\<rparr>))"

definition ls_retrieveEnrollment :: "localStorage \<Rightarrow> string \<Rightarrow> js_error + retrieve_result" where
  "ls_retrieveEnrollment ls userId =
     (let key = user_key userId
      in case map_of ls key of
           None \<Rightarrow> Inr not_found
         | Some JCorrupt \<Rightarrow>
             Inr \<lparr>rr_success = False, rr_error = Some ''Corrupt enrollment data'', rr_data = None\<rparr>
         | Some (JRecord record) \<Rightarrow>
             Inr \<lparr>rr_success = True, rr_error = None, rr_data = Some (data_of record)\<rparr>
         | Some (JLog _) \<Rightarrow>
             Inr \<lparr>rr_success = True, rr_error = None, rr_data = None\<rparr>)"

text \<open>
  \<open>logVerificationAttempt\<close>: \<open>JSON.parse(getItem(logKey)) || []\<close> inside \<open>try\<close> (a missing
  key parses to \<open>null\<close>, a rejected text leaves \<open>[]\<close>); \<open>push\<close> is outside the \<open>try\<close>, and
  on a parsed enrollment record it is a \<open>TypeError\<close>.
\<close>

definition ls_logVerificationAttempt ::
  "env \<Rightarrow> localStorage \<Rightarrow> string \<Rightarrow> bool \<Rightarrow> localStorage \<times> (js_error + unit)" where
  "ls_logVerificationAttempt e ls userId success =
     (let logKey = userId @ ''_log''
      in case (case map_of ls logKey of None \<Rightarrow> JLog [] | Some JCorrupt \<Rightarrow> JLog [] | Some v \<Rightarrow> v) of
           JLog log0 \<Rightarrow>
             (AList.update logKey (JLog (push_capped log0 (make_entry e userId success))) ls,
              Inr ())
         | _ \<Rightarrow> (ls, Inl (TypeError ''log.push is not a function'')))"

definition ls_verifyBiometric ::
  "env \<Rightarrow> localStorage \<Rightarrow> string \<Rightarrow> string \<Rightarrow> localStorage \<times> (js_error + verify_result)" where
  "ls_verifyBiometric = verifyBiometric ls_retrieveEnrollment ls_logVerificationAttempt"

definition with_timestamp :: "enrollmentData \<Rightarrow> nat \<Rightarrow> enrollmentRecord" where
  "with_timestamp d t =
     \<lparr>er_userId = ed_userId d,
      er_enrollmentId = ed_enrollmentId d,
      er_biometricType = ed_biometricType d,
      er_hash = ed_hash d,
      er_salt = ed_salt d,
      er_algorithm = ed_algorithm d,
      er_metadata = ed_metadata d,
      er_timestamp = t\<rparr>"

definition ls_updateEnrollment ::
  "env \<Rightarrow> localStorage \<Rightarrow> string \<Rightarrow> updates \<Rightarrow> localStorage \<times> (js_error + update_result)" where
  "ls_updateEnrollment e ls userId u =
     (case ls_retrieveEnrollment ls userId of
        Inl err \<Rightarrow> (ls, Inl err)
      | Inr enrollment \<Rightarrow>
          if \<not> rr_success enrollment
          then (ls, Inr \<lparr>ur_success = False, ur_error = Some ''User not found'',
                  ur_userId = None, ur_timestamp = None\<rparr>)
          else
            (case rr_data enrollment of
               None \<Rightarrow> (ls, Inl (TypeError ''Cannot set properties of undefined''))
             | Some d \<Rightarrow>
                 (let record = apply_updates e u (with_timestamp d (env_now e))
                  in (AList.update (user_key userId) (JRecord record) ls,
                      Inr \<lparr>ur_success = True, ur_error = None, ur_userId = Some userId,
                        ur_timestamp = Some (er_timestamp record)\<rparr>))))"

definition ls_deleteEnrollment :: "localStorage \<Rightarrow> string \<Rightarrow> localStorage \<times> delete_result" where
  "ls_deleteEnrollment ls userId =
     (let key = user_key userId;
          existed = (map_of ls key \<noteq> None)
      in (AList.delete (userId @ ''_log'') (AList.delete key ls),
          \<lparr>dr_success = existed, dr_userId = userId, dr_deleted = existed\<rparr>))"

text \<open>
  \<open>getAllEnrollments\<close>: only keys with the prefix are read, and the body of the loop is
  inside \<open>try\<close>: a text that does not parse, and an array (whose \<open>metadata\<close> is
  \<open>undefined\<close>), are skipped.
\<close>

fun ls_getAll_loop :: "(string \<times> ls_value) list \<Rightarrow> summary list \<Rightarrow> summary list" where
  "ls_getAll_loop [] enrollments = enrollments"
| "ls_getAll_loop ((key, raw) # rest) enrollments =
     (if startsWith key ''biometric-user-''
      then (case raw of
              JRecord record \<Rightarrow> ls_getAll_loop rest (enrollments @ [summary_of record])
            | _ \<Rightarrow> ls_getAll_loop rest enrollments)
      else ls_getAll_loop rest enrollments)"

definition ls_getAllEnrollments :: "localStorage \<Rightarrow> js_error + summary list" where
  "ls_getAllEnrollments ls = Inr (ls_getAll_loop ls [])"

definition ls_getVerificationHistory :: "localStorage \<Rightarrow> string \<Rightarrow> ls_value" where
  "ls_getVerificationHistory ls userId =
     (let logKey = userId @ ''_log''
      in case map_of ls logKey of None \<Rightarrow> JLog [] | Some JCorrupt \<Rightarrow> JLog [] | Some v \<Rightarrow> v)"

section \<open>Running a sequence of interface calls on either class\<close>

datatype call =
    StoreEnrollment string biometricData
  | RetrieveEnrollment string
  | VerifyBiometric string string
  | UpdateEnrollment string updates
  | DeleteEnrollment string
  | GetAllEnrollments
  | GetVerificationHistory string

text \<open>What a caller sees of one call: the returned object, or the exception thrown.\<close>

datatype observation =
    Stored store_result
  | Retrieved retrieve_result
  | Verified verify_result
  | Updated update_result
  | Deleted delete_result
  | Listing "summary list"
  | History "logEntry list"
  | NotAnArray
  | Thrown js_error

definition observe :: "('a \<Rightarrow> observation) \<Rightarrow> js_error + 'a \<Rightarrow> observation" where
  "observe f r = (case r of Inl err \<Rightarrow> Thrown err | Inr x \<Rightarrow> f x)"

fun mem_call :: "env \<Rightarrow> mem_storage \<Rightarrow> call \<Rightarrow> mem_storage \<times> observation" where
  "mem_call e s (StoreEnrollment userId d) =
     (let (s', r) = mem_storeEnrollment e s userId d in (s', Stored r))"
| "mem_call e s (RetrieveEnrollment userId) =
     (s, observe Retrieved (mem_retrieveEnrollment s userId))"
| "mem_call e s (VerifyBiometric userId providedHash) =
     (let (s', r) = mem_verifyBiometric e s userId providedHash in (s', observe Verified r))"
| "mem_call e s (UpdateEnrollment userId u) =
     (let (s', r) = mem_updateEnrollment e s userId u in (s', observe Updated r))"
| "mem_call e s (DeleteEnrollment userId) =
     (let (s', r) = mem_deleteEnrollment s userId in (s', Deleted r))"
| "mem_call e s GetAllEnrollments = (s, observe Listing (mem_getAllEnrollments s))"
| "mem_call e s (GetVerificationHistory userId) =
     (s, case mem_getVerificationHistory s userId of Arr l \<Rightarrow> History l | Enc _ \<Rightarrow> NotAnArray)"

fun ls_call :: "env \<Rightarrow> localStorage \<Rightarrow> call \<Rightarrow> localStorage \<times> observation" where
  "ls_call e s (StoreEnrollment userId d) =
     (let (s', r) = ls_storeEnrollment e s userId d in (s', Stored r))"
| "ls_call e s (RetrieveEnrollment userId) =
     (s, observe Retrieved (ls_retrieveEnrollment s userId))"
| "ls_call e s (VerifyBiometric userId providedHash) =
     (let (s', r) = ls_verifyBiometric e s userId providedHash in (s', observe Verified r))"
| "ls_call e s (UpdateEnrollment userId u) =
     (let (s', r) = ls_updateEnrollment e s userId u in (s', observe Updated r))"
| "ls_call e s (DeleteEnrollment userId) =
     (let (s', r) = ls_deleteEnrollment s userId in (s', Deleted r))"
| "ls_call e s GetAllEnrollments = (s, observe Listing (ls_getAllEnrollments s))"
| "ls_call e s (GetVerificationHistory userId) =
     (s, case ls_getVerificationHistory s userId of JLog l \<Rightarrow> History l | _ \<Rightarrow> NotAnArray)"

text \<open>
  A run: each call with the environment it is made in; the final storage and the
  observations in order. An exception ends the call that threw it, not the run.
\<close>

fun run :: "(env \<Rightarrow> 'st \<Rightarrow> call \<Rightarrow> 'st \<times> observation) \<Rightarrow> 'st \<Rightarrow> (env \<times> call) list \<Rightarrow>
    'st \<times> observation list" where
  "run step s [] = (s, [])"
| "run step s ((e, c) # rest) =
     (let (s', ob) = step e s c; (s'', obs) = run step s' rest in (s'', ob # obs))"

text \<open>The logged attempts of one user, one after the other, stopping at an exception.\<close>

fun log_attempts ::
  "(env \<Rightarrow> 'st \<Rightarrow> string \<Rightarrow> bool \<Rightarrow> 'st \<times> (js_error + unit)) \<Rightarrow> 'st \<Rightarrow> string \<Rightarrow>
   (env \<times> bool) list \<Rightarrow> 'st \<times> (js_error + unit)" where
  "log_attempts logAttempt s userId [] = (s, Inr ())"
| "log_attempts logAttempt s userId ((e, success) # rest) =
     (case logAttempt e s userId success of
        (s', Inl err) \<Rightarrow> (s', Inl err)
      | (s', Inr _) \<Rightarrow> log_attempts logAttempt s' userId rest)"


section \<open>Enrollment and verification (EnrollmentSimulation, VerificationSimulation)\<close>

text \<open>
  Both simulations hold a storage object of whichever BiometricStorage class is loaded:
  \<open>storage_class\<close> gives the three methods they call, over the state \<open>'st\<close> of that class.
  Each method takes the state of the storage its simulation holds, and returns it
  updated; which storage and which handler a simulation holds is decided where it is
  built (\<open>init()\<close>, below). The
  observers (\<open>triggerProgress\<close>, \<open>triggerStepChange\<close>, \<open>triggerComplete\<close>, \<open>triggerError\<close>) and
  \<open>sleep\<close> change nothing that the result depends on and are left out; so is the
  \<open>similarity\<close> field of the verification result, up to the exception its computation
  throws on an \<open>undefined\<close> stored hash.
\<close>

record 'st storage_class =
  sc_storeEnrollment :: "env \<Rightarrow> 'st \<Rightarrow> string \<Rightarrow> biometricData \<Rightarrow> 'st \<times> store_result"
  sc_retrieveEnrollment :: "'st \<Rightarrow> string \<Rightarrow> js_error + retrieve_result"
  sc_verifyBiometric :: "env \<Rightarrow> 'st \<Rightarrow> string \<Rightarrow> string \<Rightarrow> 'st \<times> (js_error + verify_result)"

definition mem_class :: "mem_storage storage_class" where
  "mem_class = \<lparr>sc_storeEnrollment = mem_storeEnrollment,
                sc_retrieveEnrollment = mem_retrieveEnrollment,
                sc_verifyBiometric = mem_verifyBiometric\<rparr>"

definition ls_class :: "localStorage storage_class" where
  "ls_class = \<lparr>sc_storeEnrollment = ls_storeEnrollment,
               sc_retrieveEnrollment = ls_retrieveEnrollment,
               sc_verifyBiometric = ls_verifyBiometric\<rparr>"

text \<open>
  The capture collaborator: \<open>None\<close> is \<open>this.webauthn === null\<close>; otherwise the outcome of
  the call \<open>this.webauthn.register(username)\<close> or \<open>this.webauthn.authenticate()\<close> that the
  method makes, an exception or the object it resolves to (\<open>register\<close> and \<open>authenticate\<close>
  themselves are modelled below).
\<close>

record capture =
  cap_success :: bool
  cap_error :: string
  cap_credentialId :: string

type_synonym webauthn = "(js_error + capture) option"

definition message :: "js_error \<Rightarrow> string" where
  "message err = (case err of Error m \<Rightarrow> m | TypeError m \<Rightarrow> m)"

definition simulateBiometricExtraction :: "capture \<Rightarrow> string" where
  "simulateBiometricExtraction assertionData = ''demo-static-biometric-template''"

text \<open>Decimal \<open>Number.prototype.toString\<close> of a length.\<close>

function toString10 :: "nat \<Rightarrow> string" where
  "toString10 n =
     (if n < 10 then [''0123456789'' ! n] else toString10 (n div 10) @ [''0123456789'' ! (n mod 10)])"
  by pat_completeness auto
termination
  by (relation "measure id") auto

declare toString10.simps [simp del]

record enrollmentInfo =
  ei_username :: string
  ei_type :: string
  ei_hash :: string
  ei_salt :: string
  ei_credentialId :: string
  ei_timestamp :: nat

record enroll_result =
  en_success :: bool
  en_error :: "string option"
  en_data :: "enrollmentInfo option"

definition enroll_failed :: "js_error \<Rightarrow> enroll_result" where
  "enroll_failed err = \<lparr>en_success = False, en_error = Some (message err), en_data = None\<rparr>"

definition enrollFingerprint ::
  "'st storage_class \<Rightarrow> digest_fn \<Rightarrow> webauthn \<Rightarrow> env \<Rightarrow> rng \<Rightarrow> 'st \<Rightarrow> string \<Rightarrow>
   'st \<times> rng \<times> enroll_result" where
  "enrollFingerprint storage digest webauthn e r st username =
     (case webauthn of
        None \<Rightarrow> (st, r, enroll_failed (Error ''WebAuthn not initialized''))
      | Some (Inl err) \<Rightarrow> (st, r, enroll_failed err)
      | Some (Inr credential) \<Rightarrow>
          if \<not> cap_success credential
          then (st, r, enroll_failed (Error (cap_error credential)))
          else
            (let biometricTemplate = simulateBiometricExtraction credential
             in case generate 32 r of
                  (Inl err, r') \<Rightarrow> (st, r', enroll_failed err)
                | (Inr salt, r') \<Rightarrow>
                    (case hashWithSalt digest biometricTemplate salt ''SHA-256'' of
                       Inl err \<Rightarrow> (st, r', enroll_failed err)
                     | Inr hashed \<Rightarrow>
                         (let (st', stored) = sc_storeEnrollment storage e st username
                                \<lparr>bd_type = Some ''fingerprint'',
                                 bd_hash = hashed,
                                 bd_salt = salt,
                                 bd_algorithm = Some ''SHA-256'',
                                 bd_deviceInfo = Some ''WebAuthn Platform Authenticator'',
                                 bd_templateSize =
                                   Some (toString10 (length biometricTemplate) @ '' bytes''),
                                 bd_confidence = Some (98 / 100)\<rparr>
                          in (st', r',
                              \<lparr>en_success = True, en_error = None,
                               en_data = Some
                                 \<lparr>ei_username = username, ei_type = ''fingerprint'',
                                  ei_hash = hashed, ei_salt = salt,
                                  ei_credentialId = cap_credentialId credential,
                                  ei_timestamp = env_now e\<rparr>\<rparr>)))))"

record verificationInfo =
  vi_success :: bool
  vi_username :: string
  vi_type :: string
  vi_storedHash :: string
  vi_computedHash :: string
  vi_match :: bool
  vi_timestamp :: nat

record verification_result =
  vf_success :: bool
  vf_verified :: bool
  vf_error :: "string option"
  vf_data :: "verificationInfo option"

definition verify_failed :: "js_error \<Rightarrow> verification_result" where
  "verify_failed err =
     \<lparr>vf_success = False, vf_verified = False, vf_error = Some (message err), vf_data = None\<rparr>"

text \<open>
  Steps 3 to 5 of \<open>verifyFingerprint\<close>, as a function of the extracted template. When the
  stored value is not an enrollment record, \<open>storedSalt\<close> and \<open>storedHash\<close> are \<open>undefined\<close>:
  the salt concatenates as the text \<open>undefined\<close>, the comparison is false, the attempt is
  passed to \<open>verifyBiometric\<close>, and \<open>calculateSimilarity\<close> throws on \<open>storedHash.length\<close>.
\<close>

definition verify_steps ::
  "'st storage_class \<Rightarrow> digest_fn \<Rightarrow> env \<Rightarrow> 'st \<Rightarrow> string \<Rightarrow> string \<Rightarrow>
   'st \<times> verification_result" where
  "verify_steps storage digest e st username biometricTemplate =
     (case sc_retrieveEnrollment storage st username of
        Inl err \<Rightarrow> (st, verify_failed err)
      | Inr enrollment \<Rightarrow>
          if \<not> rr_success enrollment then (st, verify_failed (Error ''User not enrolled''))
          else
            (case rr_data enrollment of
               None \<Rightarrow>
                 (case hashWithSalt digest biometricTemplate ''undefined'' ''SHA-256'' of
                    Inl err \<Rightarrow> (st, verify_failed err)
                  | Inr computedHash \<Rightarrow>
                      (case sc_verifyBiometric storage e st username computedHash of
                         (st', Inl err) \<Rightarrow> (st', verify_failed err)
                       | (st', Inr _) \<Rightarrow>
                           (st', verify_failed
                              (TypeError ''Cannot read properties of undefined''))))
             | Some d \<Rightarrow>
                 (let storedSalt = ed_salt d; storedHash = ed_hash d
                  in case hashWithSalt digest biometricTemplate storedSalt ''SHA-256'' of
                       Inl err \<Rightarrow> (st, verify_failed err)
                     | Inr computedHash \<Rightarrow>
                         (let match = compareHashes computedHash storedHash
                          in case sc_verifyBiometric storage e st username computedHash of
                               (st', Inl err) \<Rightarrow> (st', verify_failed err)
                             | (st', Inr verificationResult) \<Rightarrow>
                                 (st',
                                  \<lparr>vf_success = True, vf_verified = match, vf_error = None,
                                   vf_data = Some
                                     \<lparr>vi_success = match, vi_username = username,
                                      vi_type = ''fingerprint'', vi_storedHash = storedHash,
                                      vi_computedHash = computedHash, vi_match = match,
                                      vi_timestamp = env_now e\<rparr>\<rparr>)))))"

definition verifyFingerprint ::
  "'st storage_class \<Rightarrow> digest_fn \<Rightarrow> webauthn \<Rightarrow> env \<Rightarrow> 'st \<Rightarrow> string \<Rightarrow>
   'st \<times> verification_result" where
  "verifyFingerprint storage digest webauthn e st username =
     (case webauthn of
        None \<Rightarrow> (st, verify_failed (Error ''WebAuthn not initialized''))
      | Some (Inl err) \<Rightarrow> (st, verify_failed err)
      | Some (Inr assertion) \<Rightarrow>
          if \<not> cap_success assertion
          then (st, verify_failed (Error (cap_error assertion)))
          else verify_steps storage digest e st username (simulateBiometricExtraction assertion))"


section \<open>WebAuthnHandler (unnamed/part_003) and the construction of the collaborators\<close>

text \<open>
  A \<open>WebAuthnHandler\<close> holds whether the browser supports WebAuthn and the Map
  \<open>this.credentials\<close> from credential ids to the registered data (here: the username).
  \<open>new WebAuthnHandler()\<close> starts with no credential.
\<close>

record webAuthnHandler =
  wh_isSupported :: bool
  wh_credentials :: "(string \<times> string) list"

definition new_WebAuthnHandler :: "bool \<Rightarrow> webAuthnHandler" where
  "new_WebAuthnHandler supported = \<lparr>wh_isSupported = supported, wh_credentials = []\<rparr>"

text \<open>
  What the platform authenticator answers to \<open>navigator.credentials.create\<close> or
  \<open>navigator.credentials.get\<close>: an exception, or the id of the credential or assertion.
  \<open>register\<close> stores the new credential in the handler; \<open>authenticate\<close> (called without a
  credential id) reports \<open>Credential not found\<close> unless the handler holds the credential
  of the assertion.
\<close>

type_synonym platform_credential = "js_error + string"

definition register ::
  "webAuthnHandler \<Rightarrow> platform_credential \<Rightarrow> string \<Rightarrow> webAuthnHandler \<times> (js_error + capture)" where
  "register h created username =
     (if \<not> wh_isSupported h then (h, Inl (Error ''WebAuthn not supported''))
      else case created of
             Inl err \<Rightarrow>
               (h, Inr \<lparr>cap_success = False, cap_error = message err, cap_credentialId = []\<rparr>)
           | Inr credentialId \<Rightarrow>
               (h\<lparr>wh_credentials := AList.update credentialId username (wh_credentials h)\<rparr>,
                Inr \<lparr>cap_success = True, cap_error = [], cap_credentialId = credentialId\<rparr>))"

definition authenticate :: "webAuthnHandler \<Rightarrow> platform_credential \<Rightarrow> js_error + capture" where
  "authenticate h got =
     (if \<not> wh_isSupported h then Inl (Error ''WebAuthn not supported'')
      else case got of
             Inl err \<Rightarrow>
               Inr \<lparr>cap_success = False, cap_error = message err, cap_credentialId = []\<rparr>
           | Inr assertionId \<Rightarrow>
               (case map_of (wh_credentials h) assertionId of
                  None \<Rightarrow>
                    Inr \<lparr>cap_success = False, cap_error = ''Credential not found'',
                         cap_credentialId = []\<rparr>
                | Some storedCredential \<Rightarrow>
                    Inr \<lparr>cap_success = True, cap_error = [], cap_credentialId = assertionId\<rparr>))"

text \<open>
  \<open>init()\<close> of either simulation builds its own collaborators: \<open>new WebAuthnHandler()\<close> and
  \<open>new BiometricStorage()\<close>. The constructor of the Map class makes an empty Map of its
  own; an object of the localStorage class holds no data, all its objects read and write
  the one \<open>localStorage\<close> of the page.
\<close>

definition mem_new_storage :: mem_storage where
  "mem_new_storage = []"

section \<open>Vocabulary of the statements\<close>

text \<open>A string that matches \<open>^[0-9a-f]+$\<close>.\<close>

definition hex_string :: "string \<Rightarrow> bool" where
  "hex_string s \<longleftrightarrow> s \<noteq> [] \<and> list_all (\<lambda>c. c \<in> set hex_digits) s"

text \<open>
  The pair of code units at a position, as the loop of \<open>compareHashes\<close> reads it, and the
  accumulation \<open>result |= a ^ b\<close> over a list of such pairs, from \<open>result = 0\<close>.
\<close>

definition pair_at :: "string \<Rightarrow> string \<Rightarrow> nat \<Rightarrow> char_read" where
  "pair_at hash1 hash2 i = (i, toInt32 (charCodeAt hash1 i), toInt32 (charCodeAt hash2 i))"

definition xor_accumulate :: "char_read list \<Rightarrow> 32 word" where
  "xor_accumulate reads = foldl (\<lambda>result (i, a, b). result OR (a XOR b)) 0 reads"

text \<open>Concrete inputs for the instances below: a random source.\<close>

definition demo_rng :: rng where
  "demo_rng = \<lparr>rng_bytes = (\<lambda>i. word_of_nat (37 * i + 11)), rng_drawn = 0\<rparr>"

text \<open>
  The log of a user as the Map class and the localStorage class hold it (the empty log
  when the key is absent, or holds a text that does not parse), and whether an attempt can
  be logged: the log key does not hold an enrollment record.
\<close>

definition mem_log_of :: "mem_storage \<Rightarrow> string \<Rightarrow> logEntry list" where
  "mem_log_of s userId = (case map_of s (userId @ ''_log'') of Some (Arr l) \<Rightarrow> l | _ \<Rightarrow> [])"

definition mem_loggable :: "mem_storage \<Rightarrow> string \<Rightarrow> bool" where
  "mem_loggable s userId = (case map_of s (userId @ ''_log'') of Some (Enc _) \<Rightarrow> False | _ \<Rightarrow> True)"

definition ls_log_of :: "localStorage \<Rightarrow> string \<Rightarrow> logEntry list" where
  "ls_log_of s userId = (case map_of s (userId @ ''_log'') of Some (JLog l) \<Rightarrow> l | _ \<Rightarrow> [])"

definition ls_loggable :: "localStorage \<Rightarrow> string \<Rightarrow> bool" where
  "ls_loggable s userId = (case map_of s (userId @ ''_log'') of Some (JRecord _) \<Rightarrow> False | _ \<Rightarrow> True)"

definition entries_of :: "string \<Rightarrow> (env \<times> bool) list \<Rightarrow> logEntry list" where
  "entries_of userId atts = map (\<lambda>(e, success). make_entry e userId success) atts"

text \<open>Concrete inputs for the instances below.\<close>

definition demo_env :: "nat \<Rightarrow> env" where
  "demo_env t = \<lparr>env_now = t, env_iso = ''2024-01-01T00:00:00.000Z'', env_id = ''id-1'',
     env_iv = ''iv-1'', env_tag = ''tag-1'', env_device = ''demo-device''\<rparr>"

definition demo_attempts :: "nat \<Rightarrow> (env \<times> bool) list" where
  "demo_attempts n = map (\<lambda>i. (demo_env i, even i)) [0 ..< n]"

definition demo_data :: biometricData where
  "demo_data = \<lparr>bd_type = Some ''fingerprint'', bd_hash = ''ab12'', bd_salt = ''cd34'',
     bd_algorithm = Some ''SHA-256'', bd_deviceInfo = None, bd_templateSize = None,
     bd_confidence = Some (98 / 100)\<rparr>"

definition collision_script :: "(env \<times> call) list" where
  "collision_script =
     [(demo_env 1, StoreEnrollment ''bob'' demo_data),
      (demo_env 2, VerifyBiometric ''bob'' ''ab12''),
      (demo_env 3, RetrieveEnrollment ''bob_log''),
      (demo_env 4, VerifyBiometric ''bob_log'' ''ab12'')]"

definition log_collision_script :: "(env \<times> call) list" where
  "log_collision_script =
     [(demo_env 1, StoreEnrollment ''bob_log'' demo_data),
      (demo_env 2, StoreEnrollment ''bob'' demo_data),
      (demo_env 3, VerifyBiometric ''bob'' ''ab12'')]"

definition delete_script :: "(env \<times> call) list" where
  "delete_script =
     [(demo_env 1, StoreEnrollment ''alice'' demo_data),
      (demo_env 2, VerifyBiometric ''alice'' ''ab12''),
      (demo_env 3, DeleteEnrollment ''alice''),
      (demo_env 4, RetrieveEnrollment ''alice''),
      (demo_env 5, GetVerificationHistory ''alice'')]"

definition listing_script :: "(env \<times> call) list" where
  "listing_script =
     [(demo_env 1, StoreEnrollment ''alice'' demo_data),
      (demo_env 2, VerifyBiometric ''alice'' ''ab12''),
      (demo_env 3, GetAllEnrollments)]"

definition equivalence_script :: "(env \<times> call) list" where
  "equivalence_script =
     [(demo_env 1, StoreEnrollment ''alice'' demo_data),
      (demo_env 2, VerifyBiometric ''alice'' ''ab12''),
      (demo_env 3, GetAllEnrollments),
      (demo_env 4, DeleteEnrollment ''alice''),
      (demo_env 5, GetVerificationHistory ''alice'')]"

definition not_verified :: "string \<Rightarrow> verify_result" where
  "not_verified err = \<lparr>vr_success = False, vr_verified = False, vr_error = Some err,
     vr_userId = None, vr_timestamp = None, vr_metadata = None\<rparr>"

text \<open>
  A stand-in for the platform digest in the instances below (the first 32 bytes of the
  input, padded with zeros; it is not SHA-256, and nothing proved for every digest
  depends on it), a successful capture, the \<open>biometricData\<close> that \<open>enrollFingerprint\<close>
  stores, and a run of two enrollments followed by a verification of the second user.
\<close>

definition demo_digest :: digest_fn where
  "demo_digest algorithm buffer =
     (if algorithm = ''SHA-256'' then Some (take 32 (buffer @ replicate 32 0)) else None)"

definition demo_capture :: webauthn where
  "demo_capture = Some (Inr \<lparr>cap_success = True, cap_error = [], cap_credentialId = ''cred-1''\<rparr>)"

definition fingerprint_data :: "string \<Rightarrow> string \<Rightarrow> biometricData" where
  "fingerprint_data hashed salt =
     \<lparr>bd_type = Some ''fingerprint'', bd_hash = hashed, bd_salt = salt,
      bd_algorithm = Some ''SHA-256'', bd_deviceInfo = Some ''WebAuthn Platform Authenticator'',
      bd_templateSize = Some (toString10 (length ''demo-static-biometric-template'') @ '' bytes''),
      bd_confidence = Some (98 / 100)\<rparr>"

definition enroll_enroll_verify ::
  "'st storage_class \<Rightarrow> 'st \<Rightarrow> string \<Rightarrow> string \<Rightarrow> enroll_result \<times> verification_result" where
  "enroll_enroll_verify C st other username =
     (let (s1, r1, res1) = enrollFingerprint C demo_digest demo_capture (demo_env 1) demo_rng st other;
          (s2, r2, res2) = enrollFingerprint C demo_digest demo_capture (demo_env 2) r1 s1 username;
          (s3, v) = verifyFingerprint C demo_digest demo_capture (demo_env 3) s2 username
      in (res2, v))"

text \<open>
  An enrollment of a user followed by a verification of the same user, each by a
  simulation after its \<open>init()\<close>, the authenticator answering both times with the
  credential \<open>cred-1\<close>. With \<open>share_handler\<close> the caller has given the verification
  simulation the handler of the enrollment simulation, with \<open>share_storage\<close> its storage
  object; as built by \<open>init()\<close> both are false. For the localStorage class the data is
  the page's \<open>localStorage\<close>, initially empty, in either case.
\<close>

definition mem_as_built :: "bool \<Rightarrow> bool \<Rightarrow> string \<Rightarrow> enroll_result \<times> verification_result" where
  "mem_as_built share_handler share_storage username =
     (let enrollment_handler = new_WebAuthnHandler True;
          enrollment_storage = mem_new_storage;
          (h1, credential) = register enrollment_handler (Inr ''cred-1'') username;
          (s1, r1, enrolled) =
             enrollFingerprint mem_class demo_digest (Some credential) (demo_env 1) demo_rng
               enrollment_storage username;
          verification_handler = (if share_handler then h1 else new_WebAuthnHandler True);
          verification_storage = (if share_storage then s1 else mem_new_storage);
          assertion = authenticate verification_handler (Inr ''cred-1'');
          (s2, verification) =
             verifyFingerprint mem_class demo_digest (Some assertion) (demo_env 2)
               verification_storage username
      in (enrolled, verification))"

definition ls_as_built :: "bool \<Rightarrow> string \<Rightarrow> enroll_result \<times> verification_result" where
  "ls_as_built share_handler username =
     (let enrollment_handler = new_WebAuthnHandler True;
          (h1, credential) = register enrollment_handler (Inr ''cred-1'') username;
          (ls1, r1, enrolled) =
             enrollFingerprint ls_class demo_digest (Some credential) (demo_env 1) demo_rng
               [] username;
          verification_handler = (if share_handler then h1 else new_WebAuthnHandler True);
          assertion = authenticate verification_handler (Inr ''cred-1'');
          (ls2, verification) =
             verifyFingerprint ls_class demo_digest (Some assertion) (demo_env 2) ls1 username
      in (enrolled, verification))"

definition demo_credential :: capture where
  "demo_credential = \<lparr>cap_success = True, cap_error = [], cap_credentialId = ''cred-1''\<rparr>"

section \<open>HashGenerator: salted hashing and hash comparison\<close>

lemma xor_zero_iff: "(a::32 word) XOR b = 0 \<longleftrightarrow> a = b"
proof
  assume h: "a XOR b = 0"
  have "a = a XOR (b XOR b)" by simp
  also have "\<dots> = (a XOR b) XOR b" by (simp only: xor.assoc)
  also have "\<dots> = b" using h by simp
  finally show "a = b" .
next
  assume "a = b" then show "a XOR b = 0" by simp
qed

lemma code_unit_inj:
  "(word_of_nat (of_char a) :: 32 word) = word_of_nat (of_char b) \<longleftrightarrow> a = b"
proof
  assume h: "(word_of_nat (of_char a) :: 32 word) = word_of_nat (of_char b)"
  have la: "(of_char a :: nat) < 2 ^ 32"
    using nat_of_char_less_256 [of a] by (rule less_trans) simp
  have lb: "(of_char b :: nat) < 2 ^ 32"
    using nat_of_char_less_256 [of b] by (rule less_trans) simp
  from h have "take_bit 32 (of_char a :: nat) = take_bit 32 (of_char b :: nat)"
    by (simp add: word_of_nat_eq_iff)
  then have "(of_char a :: nat) = of_char b"
    using la lb by (simp add: take_bit_nat_eq_self)
  then show "a = b" by simp
next
  assume "a = b" then show "(word_of_nat (of_char a) :: 32 word) = word_of_nat (of_char b)" by simp
qed

lemma xor_step:
  assumes "i < length hash1" "i < length hash2"
  shows "toInt32 (charCodeAt hash1 i) XOR toInt32 (charCodeAt hash2 i) = 0 \<longleftrightarrow> hash1 ! i = hash2 ! i"
  using assms by (simp add: charCodeAt_def toInt32_def xor_zero_iff code_unit_inj)

lemma range_split:
  assumes "i < (n::nat)"
  shows "(\<forall>j. i \<le> j \<and> j < n \<longrightarrow> P j) \<longleftrightarrow> P i \<and> (\<forall>j. i + 1 \<le> j \<and> j < n \<longrightarrow> P j)"
proof (intro iffI conjI allI impI)
  fix j assume a: "P i \<and> (\<forall>j. i + 1 \<le> j \<and> j < n \<longrightarrow> P j)" and b: "i \<le> j \<and> j < n"
  show "P j"
  proof (cases "j = i")
    case True then show ?thesis using a by simp
  next
    case False
    then have "i + 1 \<le> j" using b by simp
    then show ?thesis using a b by blast
  qed
next
  assume "\<forall>j. i \<le> j \<and> j < n \<longrightarrow> P j" then show "P i" using assms by simp
next
  fix j assume "\<forall>j. i \<le> j \<and> j < n \<longrightarrow> P j" "i + 1 \<le> j \<and> j < n"
  then show "P j" by simp
qed

lemma compare_loop_result:
  "length hash1 = length hash2 \<Longrightarrow>
   fst (compare_loop hash1 hash2 i result visited) = 0 \<longleftrightarrow>
     result = 0 \<and> (\<forall>j. i \<le> j \<and> j < length hash1 \<longrightarrow> hash1 ! j = hash2 ! j)"
proof (induction hash1 hash2 i result visited rule: compare_loop.induct)
  case (1 hash1 hash2 i result visited)
  show ?case
  proof (cases "i < length hash1")
    case True
    have step: "toInt32 (charCodeAt hash1 i) XOR toInt32 (charCodeAt hash2 i) = 0 \<longleftrightarrow> hash1 ! i = hash2 ! i"
      using True "1.prems" by (simp add: xor_step)
    have unf: "compare_loop hash1 hash2 i result visited =
      compare_loop hash1 hash2 (i + 1)
        (result OR (toInt32 (charCodeAt hash1 i) XOR toInt32 (charCodeAt hash2 i)))
        (visited @ [pair_at hash1 hash2 i])"
      using True by (subst compare_loop.simps) (simp add: pair_at_def)
    show ?thesis
      unfolding unf "1.IH" [OF True "1.prems", folded pair_at_def] range_split [OF True, of "\<lambda>j. hash1 ! j = hash2 ! j"]
        or_eq_0_iff step
      by blast
  next
    case False
    have "compare_loop hash1 hash2 i result visited = (result, visited)"
      using False by (subst compare_loop.simps) simp
    then show ?thesis using False by auto
  qed
qed

lemma compare_loop_unfold:
  "i < length hash1 \<Longrightarrow>
   compare_loop hash1 hash2 i result visited =
     compare_loop hash1 hash2 (i + 1)
       (result OR (toInt32 (charCodeAt hash1 i) XOR toInt32 (charCodeAt hash2 i)))
       (visited @ [pair_at hash1 hash2 i])"
  by (subst compare_loop.simps) (simp add: pair_at_def)

lemma compare_loop_visited:
  "i \<le> length hash1 \<Longrightarrow>
   snd (compare_loop hash1 hash2 i result visited) =
     visited @ map (pair_at hash1 hash2) [i ..< length hash1]"
proof (induction hash1 hash2 i result visited rule: compare_loop.induct)
  case (1 hash1 hash2 i result visited)
  show ?case
  proof (cases "i < length hash1")
    case True
    have "snd (compare_loop hash1 hash2 (i + 1)
        (result OR (toInt32 (charCodeAt hash1 i) XOR toInt32 (charCodeAt hash2 i)))
        (visited @ [pair_at hash1 hash2 i])) =
      (visited @ [pair_at hash1 hash2 i]) @ map (pair_at hash1 hash2) [i + 1 ..< length hash1]"
      using "1.IH" [OF True, folded pair_at_def] True by simp
    then show ?thesis
      using True by (simp add: compare_loop_unfold upt_conv_Cons)
  next
    case False
    then show ?thesis using "1.prems" by (subst compare_loop.simps) simp
  qed
qed

lemma accumulate_step:
  "foldl (\<lambda>result (i, a, b). result OR (a XOR b)) result (pair_at hash1 hash2 i # reads) =
   foldl (\<lambda>result (i, a, b). result OR (a XOR b))
     (result OR (toInt32 (charCodeAt hash1 i) XOR toInt32 (charCodeAt hash2 i))) reads"
  by (simp add: pair_at_def)

lemma compare_loop_accumulates:
  "fst (compare_loop hash1 hash2 i result visited) =
     foldl (\<lambda>result (i, a, b). result OR (a XOR b)) result
       (map (pair_at hash1 hash2) [i ..< length hash1])"
proof (induction hash1 hash2 i result visited rule: compare_loop.induct)
  case (1 hash1 hash2 i result visited)
  show ?case
  proof (cases "i < length hash1")
    case True
    have "fst (compare_loop hash1 hash2 (i + 1)
        (result OR (toInt32 (charCodeAt hash1 i) XOR toInt32 (charCodeAt hash2 i)))
        (visited @ [pair_at hash1 hash2 i])) =
      foldl (\<lambda>result (i, a, b). result OR (a XOR b))
        (result OR (toInt32 (charCodeAt hash1 i) XOR toInt32 (charCodeAt hash2 i)))
        (map (pair_at hash1 hash2) [i + 1 ..< length hash1])"
      using "1.IH" [OF True, folded pair_at_def] .
    then show ?thesis
      using True by (simp only: compare_loop_unfold upt_conv_Cons list.map accumulate_step Suc_eq_plus1)
  next
    case False
    then show ?thesis by (subst compare_loop.simps) simp
  qed
qed

lemma compareHashes_iff: "compareHashes hash1 hash2 \<longleftrightarrow> hash1 \<noteq> [] \<and> hash1 = hash2"
proof (cases "hash1 = [] \<or> hash2 = [] \<or> length hash1 \<noteq> length hash2")
  case True
  then show ?thesis by (auto simp: compareHashes_def compareHashes_run_def)
next
  case False
  then have len: "length hash1 = length hash2" and ne: "hash1 \<noteq> []" "hash2 \<noteq> []" by simp_all
  have "compareHashes hash1 hash2 \<longleftrightarrow> fst (compare_loop hash1 hash2 0 0 []) = 0"
    using False by (simp add: compareHashes_def compareHashes_run_def split: prod.splits)
  also have "\<dots> \<longleftrightarrow> (\<forall>j. j < length hash1 \<longrightarrow> hash1 ! j = hash2 ! j)"
    using compare_loop_result [OF len, of 0 0 "[]"] by simp
  also have "\<dots> \<longleftrightarrow> hash1 = hash2"
    using len by (auto simp: list_eq_iff_nth_eq)
  finally show ?thesis using ne by simp
qed

text \<open>
  Claim C3, as the code has it. \<open>compareHashes\<close> decides equality of non-empty strings: it
  is true on \<open>(h, h)\<close> for every non-empty \<open>h\<close>, and false whenever the two strings differ,
  in particular when their lengths differ. The first test of the function,
  \<open>if (!hash1 || !hash2) return false\<close>, rejects the empty string, so \<open>compareHashes('', '')\<close>
  is false, as the closed instance after the theorem shows.
\<close>

theorem compareHashes_decides_nonempty_equality:
  "(hash1 \<noteq> [] \<longrightarrow> compareHashes hash1 hash1) \<and>
   (hash1 \<noteq> hash2 \<longrightarrow> \<not> compareHashes hash1 hash2) \<and>
   (length hash1 \<noteq> length hash2 \<longrightarrow> \<not> compareHashes hash1 hash2)"
  by (auto simp: compareHashes_iff)

theorem compareHashes_decides_nonempty_equality_witness:
  "compareHashes ''ab12'' ''ab12'' \<and> \<not> compareHashes ''ab12'' ''ab13'' \<and> \<not> compareHashes ''ab12'' ''ab1''"
  using compareHashes_decides_nonempty_equality [of "''ab12''" "''ab13''"]
    compareHashes_decides_nonempty_equality [of "''ab12''" "''ab1''"]
  by simp

theorem compareHashes_empty_counterexample:
  "\<not> compareHashes [] []"
  by (simp add: compareHashes_def compareHashes_run_def)

text \<open>
  Claim C10. On two strings of equal length the loop of \<open>compareHashes\<close> reads every
  character position exactly once and in order, whatever the strings contain: what it
  reads is, for each position from \<open>0\<close> to \<open>length - 1\<close>, the code unit of each string
  there; the value returned is whether the accumulation \<open>result |= a ^ b\<close> over exactly
  these pairs is zero. So the positions examined, and their number, do not depend on
  where the first difference is. (For two empty strings the function returns at its
  first test, having nothing to read.) Only the tests on emptiness and on the lengths
  return early.
\<close>

theorem compareHashes_reads_every_position:
  "length hash1 = length hash2 \<Longrightarrow>
   characters_read hash1 hash2 = map (pair_at hash1 hash2) [0 ..< length hash1] \<and>
   map fst (characters_read hash1 hash2) = [0 ..< length hash1] \<and>
   (compareHashes hash1 hash2 \<longleftrightarrow>
      hash1 \<noteq> [] \<and> xor_accumulate (characters_read hash1 hash2) = 0)"
proof -
  assume len: "length hash1 = length hash2"
  have run: "snd (compare_loop hash1 hash2 0 0 []) = map (pair_at hash1 hash2) [0 ..< length hash1]"
    using compare_loop_visited [of 0 hash1 hash2 0 "[]"] by simp
  have acc: "fst (compare_loop hash1 hash2 0 0 []) =
      xor_accumulate (map (pair_at hash1 hash2) [0 ..< length hash1])"
    by (simp add: compare_loop_accumulates xor_accumulate_def)
  have reads: "characters_read hash1 hash2 = map (pair_at hash1 hash2) [0 ..< length hash1]"
    using len run by (auto simp: characters_read_def compareHashes_run_def split: prod.splits)
  have pos: "map fst (map (pair_at hash1 hash2) [0 ..< length hash1]) = [0 ..< length hash1]"
    by (simp add: pair_at_def comp_def)
  have res: "compareHashes hash1 hash2 \<longleftrightarrow>
      hash1 \<noteq> [] \<and> xor_accumulate (map (pair_at hash1 hash2) [0 ..< length hash1]) = 0"
    using len acc by (auto simp: compareHashes_def compareHashes_run_def split: prod.splits)
  show ?thesis using reads pos res by simp
qed

theorem compareHashes_reads_every_position_witness:
  "map fst (characters_read ''a1b2'' ''a1b2'') = [0, 1, 2, 3] \<and>
   map fst (characters_read ''a1b2'' ''x1b2'') = [0, 1, 2, 3] \<and>
   characters_read ''a1b2'' ''a1bx'' = [(0, 97, 97), (1, 49, 49), (2, 98, 98), (3, 50, 120)] \<and>
   xor_accumulate (characters_read ''a1b2'' ''a1bx'') = 74 \<and>
   \<not> compareHashes ''a1b2'' ''a1bx'' \<and>
   xor_accumulate (characters_read ''a1b2'' ''a1b2'') = 0 \<and> compareHashes ''a1b2'' ''a1b2''"
  using compareHashes_reads_every_position [of "''a1b2''" "''a1b2''"]
    compareHashes_reads_every_position [of "''a1b2''" "''x1b2''"]
    compareHashes_reads_every_position [of "''a1b2''" "''a1bx''"]
  by (simp add: upt_rec pair_at_def charCodeAt_def toInt32_def xor_accumulate_def)

text \<open>
  Claim C2. For every data string, salt and algorithm name, \<open>hashWithSalt\<close> is \<open>hash\<close> of
  the data with the salt appended: one pass of the platform digest over the encoding of
  \<open>data + salt\<close>, rendered in hexadecimal, and the same exception when the digest rejects
  the call.
\<close>

theorem hashWithSalt_is_hash_of_concatenation:
  "hashWithSalt digest data salt algorithm = hash digest (data @ salt) algorithm \<and>
   hashWithSalt digest data salt algorithm =
     (case digest algorithm (encode (data @ salt)) of
        Some hashBuffer \<Rightarrow> Inr (bufferToHex hashBuffer)
      | None \<Rightarrow> Inl (Error (''Failed to generate '' @ algorithm @ '' hash'')))"
  by (simp add: hashWithSalt_def hash_def)

section \<open>SaltGenerator: the contract of generate\<close>

lemma hex_digit_mem: "k < 16 \<Longrightarrow> hex_digits ! k \<in> set hex_digits"
proof -
  assume "k < 16"
  then have "k < length hex_digits" by (simp add: hex_digits_def)
  then show ?thesis by (rule nth_mem)
qed

lemma toString16_length: "length (toString16 b) = (if unat b < 16 then 1 else 2)"
  by (simp add: toString16_def)

lemma byte_hex_length: "length (padStart2 (toString16 b)) = 2"
  by (simp add: padStart2_def toString16_def)

lemma unat_byte_div: "unat (b::byte) div 16 < 16"
proof -
  have "unat b < 256" using unsigned_less [of b] by simp
  then show ?thesis by simp
qed

lemma byte_hex_chars: "set (padStart2 (toString16 b)) \<subseteq> set hex_digits"
proof -
  have z: "CHR ''0'' \<in> set hex_digits" by (simp add: hex_digits_def)
  have a: "set (toString16 b) \<subseteq> set hex_digits"
    using unat_byte_div [of b] by (auto simp: toString16_def hex_digit_mem)
  show ?thesis using a z by (auto simp: padStart2_def)
qed

lemma arrayToHex_length: "length (arrayToHex array) = 2 * length array"
  by (induction array) (simp_all add: arrayToHex_def byte_hex_length)

lemma arrayToHex_chars: "set (arrayToHex array) \<subseteq> set hex_digits"
  using byte_hex_chars by (auto simp: arrayToHex_def)


lemma generate_in_range:
  assumes "16 \<le> lengthBytes" "lengthBytes \<le> 128"
  shows "generate lengthBytes r =
    (Inr (arrayToHex (map (rng_bytes r) [rng_drawn r ..< rng_drawn r + nat lengthBytes])),
     r\<lparr>rng_drawn := rng_drawn r + nat lengthBytes\<rparr>)"
proof -
  have guard: "\<not> (lengthBytes < minLength \<or> lengthBytes > maxLength)"
    using assms by (simp add: minLength_def maxLength_def)
  show ?thesis
    unfolding generate_def using guard
    by (simp only: getRandomValues_def if_False Let_def prod.case)
qed

lemma arrayToHex_hex_string: "array \<noteq> [] \<Longrightarrow> hex_string (arrayToHex array)"
proof -
  assume ne: "array \<noteq> []"
  have "length (arrayToHex array) \<noteq> 0" using ne by (simp add: arrayToHex_length)
  then have "arrayToHex array \<noteq> []" by simp
  moreover have "list_all (\<lambda>c. c \<in> set hex_digits) (arrayToHex array)"
    using arrayToHex_chars [of array] by (simp add: list_all_iff subset_iff)
  ultimately show ?thesis by (simp add: hex_string_def)
qed

lemma generate_salt:
  assumes "16 \<le> lengthBytes" "lengthBytes \<le> 128" "generate lengthBytes r = (Inr s, r')"
  shows "length s = 2 * nat lengthBytes" "hex_string s"
    "rng_drawn r' = rng_drawn r + nat lengthBytes"
proof -
  let ?array = "map (rng_bytes r) [rng_drawn r ..< rng_drawn r + nat lengthBytes]"
  have s: "s = arrayToHex ?array" and r': "r' = r\<lparr>rng_drawn := rng_drawn r + nat lengthBytes\<rparr>"
    using generate_in_range [OF assms(1,2), of r] assms(3) by simp_all
  have ne: "?array \<noteq> []" using assms(1) by simp
  show "length s = 2 * nat lengthBytes" by (simp add: s arrayToHex_length)
  show "hex_string s" unfolding s using ne by (rule arrayToHex_hex_string)
  show "rng_drawn r' = rng_drawn r + nat lengthBytes" by (simp add: r')
qed

text \<open>
  Claim C4. For \<open>16 \<le> lengthBytes \<le> 128\<close>, \<open>generate\<close> returns a string of exactly
  \<open>2 \<times> lengthBytes\<close> characters that matches \<open>^[0-9a-f]+$\<close>, having drawn \<open>lengthBytes\<close>
  bytes from the random source; outside that range it throws
  \<open>Error('Salt length must be between 16 and 128 bytes')\<close> and the random source is as it
  was: nothing has been drawn.
\<close>

theorem generate_contract:
  "(16 \<le> lengthBytes \<and> lengthBytes \<le> 128 \<longrightarrow>
      (\<exists>s r'. generate lengthBytes r = (Inr s, r') \<and> length s = 2 * nat lengthBytes \<and>
               hex_string s \<and> rng_drawn r' = rng_drawn r + nat lengthBytes)) \<and>
   (lengthBytes < 16 \<or> 128 < lengthBytes \<longrightarrow>
      generate lengthBytes r = (Inl (Error ''Salt length must be between 16 and 128 bytes''), r))"
proof (intro conjI impI)
  assume range: "16 \<le> lengthBytes \<and> lengthBytes \<le> 128"
  then obtain s r' where g: "generate lengthBytes r = (Inr s, r')"
    using generate_in_range [of lengthBytes r] by blast
  show "\<exists>s r'. generate lengthBytes r = (Inr s, r') \<and> length s = 2 * nat lengthBytes \<and>
               hex_string s \<and> rng_drawn r' = rng_drawn r + nat lengthBytes"
    using g generate_salt [OF _ _ g] range by blast
next
  assume "lengthBytes < 16 \<or> 128 < lengthBytes"
  then show "generate lengthBytes r = (Inl (Error ''Salt length must be between 16 and 128 bytes''), r)"
    by (auto simp: generate_def minLength_def maxLength_def)
qed

theorem generate_contract_witness:
  "(\<exists>s r'. generate 16 demo_rng = (Inr s, r') \<and> length s = 32 \<and> hex_string s \<and> rng_drawn r' = 16) \<and>
   generate 15 demo_rng = (Inl (Error ''Salt length must be between 16 and 128 bytes''), demo_rng) \<and>
   generate 129 demo_rng = (Inl (Error ''Salt length must be between 16 and 128 bytes''), demo_rng)"
  using generate_contract [of 16 demo_rng] generate_contract [of 15 demo_rng]
    generate_contract [of 129 demo_rng]
  by (simp add: demo_rng_def)

section \<open>BiometricStorage: the verification log\<close>

lemma push_capped_slice: "push_capped l e = slice_last 100 (l @ [e])"
  by (simp add: push_capped_def slice_last_def Let_def)

lemma slice_last_rev: "slice_last n xs = rev (take n (rev xs))"
  by (simp add: slice_last_def take_rev)

lemma slice_last_append: "slice_last n (slice_last n xs @ ys) = slice_last n (xs @ ys)"
  by (simp add: slice_last_rev min_def)

lemma foldl_push_capped: "es \<noteq> [] \<Longrightarrow> foldl push_capped l es = slice_last 100 (l @ es)"
proof (induction es arbitrary: l)
  case Nil
  then show ?case by simp
next
  case (Cons e es)
  show ?case
  proof (cases "es = []")
    case True
    then show ?thesis by (simp add: push_capped_slice)
  next
    case False
    have "foldl push_capped l (e # es) = slice_last 100 (push_capped l e @ es)"
      using Cons.IH [OF False] by simp
    also have "\<dots> = slice_last 100 ((l @ [e]) @ es)"
      unfolding push_capped_slice by (rule slice_last_append)
    finally show ?thesis by simp
  qed
qed

lemma slice_last_length: "length (slice_last n xs) \<le> n"
  by (simp add: slice_last_def)

lemma mem_log_step:
  "mem_loggable s u \<Longrightarrow>
   mem_logVerificationAttempt e s u ok =
     (AList.update (u @ ''_log'') (Arr (push_capped (mem_log_of s u) (make_entry e u ok))) s, Inr ())"
  by (auto simp: mem_loggable_def mem_log_of_def mem_logVerificationAttempt_def
      split: option.splits mem_value.splits)

lemma mem_log_after_update:
  "mem_loggable (AList.update (u @ ''_log'') (Arr l) s) u \<and>
   mem_log_of (AList.update (u @ ''_log'') (Arr l) s) u = l"
  by (simp add: mem_loggable_def mem_log_of_def update_conv')

lemma mem_log_run:
  "mem_loggable s u \<Longrightarrow>
   \<exists>s'. log_attempts mem_logVerificationAttempt s u atts = (s', Inr ()) \<and> mem_loggable s' u \<and>
        mem_log_of s' u = foldl push_capped (mem_log_of s u) (entries_of u atts)"
proof (induction atts arbitrary: s)
  case Nil
  then show ?case by (simp add: entries_of_def)
next
  case (Cons a atts)
  obtain e ok where a: "a = (e, ok)" by (cases a)
  define s1 where "s1 = AList.update (u @ ''_log'') (Arr (push_capped (mem_log_of s u) (make_entry e u ok))) s"
  have step: "mem_logVerificationAttempt e s u ok = (s1, Inr ())"
    using mem_log_step [OF Cons.prems] by (simp add: s1_def)
  have s1: "mem_loggable s1 u" "mem_log_of s1 u = push_capped (mem_log_of s u) (make_entry e u ok)"
    using mem_log_after_update [of u _ s] by (simp_all add: s1_def)
  from Cons.IH [OF s1(1)] obtain s' where
    "log_attempts mem_logVerificationAttempt s1 u atts = (s', Inr ())" "mem_loggable s' u"
    "mem_log_of s' u = foldl push_capped (mem_log_of s1 u) (entries_of u atts)" by blast
  then show ?case
    using step s1 by (simp add: a entries_of_def)
qed

lemma mem_history_log_of:
  "mem_loggable s u \<Longrightarrow> mem_getVerificationHistory s u = Arr (mem_log_of s u)"
  by (auto simp: mem_loggable_def mem_log_of_def mem_getVerificationHistory_def
      split: option.splits mem_value.splits)

lemma mem_log_throws:
  "\<not> mem_loggable s u \<Longrightarrow>
   mem_logVerificationAttempt e s u ok = (s, Inl (TypeError ''log.push is not a function''))"
  by (auto simp: mem_loggable_def mem_logVerificationAttempt_def
      split: option.splits mem_value.splits)

lemma ls_log_step:
  "ls_loggable s u \<Longrightarrow>
   ls_logVerificationAttempt e s u ok =
     (AList.update (u @ ''_log'') (JLog (push_capped (ls_log_of s u) (make_entry e u ok))) s, Inr ())"
  by (auto simp: ls_loggable_def ls_log_of_def ls_logVerificationAttempt_def
      split: option.splits ls_value.splits)

lemma ls_log_after_update:
  "ls_loggable (AList.update (u @ ''_log'') (JLog l) s) u \<and>
   ls_log_of (AList.update (u @ ''_log'') (JLog l) s) u = l"
  by (simp add: ls_loggable_def ls_log_of_def update_conv')

lemma ls_log_run:
  "ls_loggable s u \<Longrightarrow>
   \<exists>s'. log_attempts ls_logVerificationAttempt s u atts = (s', Inr ()) \<and> ls_loggable s' u \<and>
        ls_log_of s' u = foldl push_capped (ls_log_of s u) (entries_of u atts)"
proof (induction atts arbitrary: s)
  case Nil
  then show ?case by (simp add: entries_of_def)
next
  case (Cons a atts)
  obtain e ok where a: "a = (e, ok)" by (cases a)
  define s1 where "s1 = AList.update (u @ ''_log'') (JLog (push_capped (ls_log_of s u) (make_entry e u ok))) s"
  have step: "ls_logVerificationAttempt e s u ok = (s1, Inr ())"
    using ls_log_step [OF Cons.prems] by (simp add: s1_def)
  have s1: "ls_loggable s1 u" "ls_log_of s1 u = push_capped (ls_log_of s u) (make_entry e u ok)"
    using ls_log_after_update [of u _ s] by (simp_all add: s1_def)
  from Cons.IH [OF s1(1)] obtain s' where
    "log_attempts ls_logVerificationAttempt s1 u atts = (s', Inr ())" "ls_loggable s' u"
    "ls_log_of s' u = foldl push_capped (ls_log_of s1 u) (entries_of u atts)" by blast
  then show ?case
    using step s1 by (simp add: a entries_of_def)
qed

lemma ls_history_log_of:
  "ls_loggable s u \<Longrightarrow> ls_getVerificationHistory s u = JLog (ls_log_of s u)"
  by (auto simp: ls_loggable_def ls_log_of_def ls_getVerificationHistory_def
      split: option.splits ls_value.splits)

lemma ls_log_throws:
  "\<not> ls_loggable s u \<Longrightarrow>
   ls_logVerificationAttempt e s u ok = (s, Inl (TypeError ''log.push is not a function''))"
  by (auto simp: ls_loggable_def ls_logVerificationAttempt_def
      split: option.splits ls_value.splits)

text \<open>
  Claim C5. In both classes, for every user whose log key can take a log (it holds a log,
  nothing, or an unreadable text), every attempt of a sequence is logged, and afterwards
  the user's log is the last 100 entries of the old log followed by the new entries in
  the order of the attempts, the most recent last: at most 100 entries, the oldest
  dropped first. From an empty log, 150 attempts leave exactly the entries of attempts
  51 to 150. (When the log key holds an enrollment record instead, the attempt throws
  and nothing is logged: \<open>mem_log_throws\<close>, \<open>ls_log_throws\<close>.)
\<close>

theorem verification_log_capped:
  "(mem_loggable s u \<and> atts \<noteq> [] \<longrightarrow>
      (\<exists>s'. log_attempts mem_logVerificationAttempt s u atts = (s', Inr ()) \<and>
         mem_getVerificationHistory s' u = Arr (slice_last 100 (mem_log_of s u @ entries_of u atts)) \<and>
         length (slice_last 100 (mem_log_of s u @ entries_of u atts)) \<le> 100 \<and>
         (mem_log_of s u = [] \<and> length atts = 150 \<longrightarrow>
            mem_getVerificationHistory s' u = Arr (drop 50 (entries_of u atts)) \<and>
            length (drop 50 (entries_of u atts)) = 100))) \<and>
   (ls_loggable t u \<and> atts \<noteq> [] \<longrightarrow>
      (\<exists>t'. log_attempts ls_logVerificationAttempt t u atts = (t', Inr ()) \<and>
         ls_getVerificationHistory t' u = JLog (slice_last 100 (ls_log_of t u @ entries_of u atts)) \<and>
         length (slice_last 100 (ls_log_of t u @ entries_of u atts)) \<le> 100 \<and>
         (ls_log_of t u = [] \<and> length atts = 150 \<longrightarrow>
            ls_getVerificationHistory t' u = JLog (drop 50 (entries_of u atts)) \<and>
            length (drop 50 (entries_of u atts)) = 100)))"
proof (intro conjI impI)
  assume h: "mem_loggable s u \<and> atts \<noteq> []"
  then have ne: "entries_of u atts \<noteq> []" by (simp add: entries_of_def)
  from mem_log_run [of s u atts] h obtain s' where
    r: "log_attempts mem_logVerificationAttempt s u atts = (s', Inr ())" and l: "mem_loggable s' u"
    and lo: "mem_log_of s' u = foldl push_capped (mem_log_of s u) (entries_of u atts)" by blast
  have hist: "mem_getVerificationHistory s' u = Arr (slice_last 100 (mem_log_of s u @ entries_of u atts))"
    using mem_history_log_of [OF l] lo foldl_push_capped [OF ne] by simp
  have full: "mem_log_of s u = [] \<and> length atts = 150 \<longrightarrow>
      mem_getVerificationHistory s' u = Arr (drop 50 (entries_of u atts)) \<and>
      length (drop 50 (entries_of u atts)) = 100"
    using hist by (simp add: slice_last_def entries_of_def)
  show "\<exists>s'. log_attempts mem_logVerificationAttempt s u atts = (s', Inr ()) \<and>
         mem_getVerificationHistory s' u = Arr (slice_last 100 (mem_log_of s u @ entries_of u atts)) \<and>
         length (slice_last 100 (mem_log_of s u @ entries_of u atts)) \<le> 100 \<and>
         (mem_log_of s u = [] \<and> length atts = 150 \<longrightarrow>
            mem_getVerificationHistory s' u = Arr (drop 50 (entries_of u atts)) \<and>
            length (drop 50 (entries_of u atts)) = 100)"
    using r hist full slice_last_length by blast
next
  assume h: "ls_loggable t u \<and> atts \<noteq> []"
  then have ne: "entries_of u atts \<noteq> []" by (simp add: entries_of_def)
  from ls_log_run [of t u atts] h obtain t' where
    r: "log_attempts ls_logVerificationAttempt t u atts = (t', Inr ())" and l: "ls_loggable t' u"
    and lo: "ls_log_of t' u = foldl push_capped (ls_log_of t u) (entries_of u atts)" by blast
  have hist: "ls_getVerificationHistory t' u = JLog (slice_last 100 (ls_log_of t u @ entries_of u atts))"
    using ls_history_log_of [OF l] lo foldl_push_capped [OF ne] by simp
  have full: "ls_log_of t u = [] \<and> length atts = 150 \<longrightarrow>
      ls_getVerificationHistory t' u = JLog (drop 50 (entries_of u atts)) \<and>
      length (drop 50 (entries_of u atts)) = 100"
    using hist by (simp add: slice_last_def entries_of_def)
  show "\<exists>t'. log_attempts ls_logVerificationAttempt t u atts = (t', Inr ()) \<and>
         ls_getVerificationHistory t' u = JLog (slice_last 100 (ls_log_of t u @ entries_of u atts)) \<and>
         length (slice_last 100 (ls_log_of t u @ entries_of u atts)) \<le> 100 \<and>
         (ls_log_of t u = [] \<and> length atts = 150 \<longrightarrow>
            ls_getVerificationHistory t' u = JLog (drop 50 (entries_of u atts)) \<and>
            length (drop 50 (entries_of u atts)) = 100)"
    using r hist full slice_last_length by blast
qed

theorem verification_log_capped_witness:
  "(\<exists>s'. log_attempts mem_logVerificationAttempt [] ''alice'' (demo_attempts 150) = (s', Inr ()) \<and>
      mem_getVerificationHistory s' ''alice'' = Arr (drop 50 (entries_of ''alice'' (demo_attempts 150))) \<and>
      length (drop 50 (entries_of ''alice'' (demo_attempts 150))) = 100) \<and>
   (\<exists>t'. log_attempts ls_logVerificationAttempt [] ''alice'' (demo_attempts 150) = (t', Inr ()) \<and>
      ls_getVerificationHistory t' ''alice'' = JLog (drop 50 (entries_of ''alice'' (demo_attempts 150))) \<and>
      length (drop 50 (entries_of ''alice'' (demo_attempts 150))) = 100)"
proof -
  have a: "mem_loggable [] ''alice''" "ls_loggable [] ''alice''"
    by (simp_all add: mem_loggable_def ls_loggable_def)
  have b: "demo_attempts 150 \<noteq> []" "length (demo_attempts 150) = 150"
    by (simp_all add: demo_attempts_def)
  have c: "mem_log_of [] ''alice'' = []" "ls_log_of [] ''alice'' = []"
    by (simp_all add: mem_log_of_def ls_log_of_def)
  show ?thesis
    using verification_log_capped [of "[]" "''alice''" "demo_attempts 150" "[]"] a b c
    by auto
qed

section \<open>BiometricStorage: verification, deletion, listing\<close>

lemma mem_verify_unenrolled:
  "map_of s u = None \<Longrightarrow> mem_verifyBiometric e s u h = (s, Inr (not_verified ''User not found''))"
  by (simp add: mem_verifyBiometric_def verifyBiometric_def mem_retrieveEnrollment_def
      not_found_def not_verified_def)

lemma mem_verify_enrolled:
  assumes "map_of s u = Some (Enc x)" "mem_loggable s u"
  shows "mem_verifyBiometric e s u h =
     (AList.update (u @ ''_log'')
        (Arr (push_capped (mem_log_of s u)
           (make_entry e u (compareHashes (er_hash (enc_payload x)) h)))) s,
      Inr \<lparr>vr_success = True, vr_verified = compareHashes (er_hash (enc_payload x)) h,
           vr_error = None, vr_userId = Some u, vr_timestamp = Some (env_now e),
           vr_metadata = Some (er_metadata (enc_payload x))\<rparr>)"
  using assms
  by (simp add: mem_verifyBiometric_def verifyBiometric_def mem_retrieveEnrollment_def
      mem_decrypt_def data_of_def mem_log_step Let_def)

lemma ls_verify_unenrolled:
  "map_of t (user_key u) = None \<Longrightarrow>
   ls_verifyBiometric e t u h = (t, Inr (not_verified ''User not found''))"
  by (simp add: ls_verifyBiometric_def verifyBiometric_def ls_retrieveEnrollment_def
      not_found_def not_verified_def)

lemma ls_verify_corrupt:
  "map_of t (user_key u) = Some JCorrupt \<Longrightarrow>
   ls_verifyBiometric e t u h = (t, Inr (not_verified ''Corrupt enrollment data''))"
  by (simp add: ls_verifyBiometric_def verifyBiometric_def ls_retrieveEnrollment_def
      not_verified_def)

lemma ls_verify_enrolled:
  assumes "map_of t (user_key u) = Some (JRecord x)" "ls_loggable t u"
  shows "ls_verifyBiometric e t u h =
     (AList.update (u @ ''_log'')
        (JLog (push_capped (ls_log_of t u) (make_entry e u (compareHashes (er_hash x) h)))) t,
      Inr \<lparr>vr_success = True, vr_verified = compareHashes (er_hash x) h,
           vr_error = None, vr_userId = Some u, vr_timestamp = Some (env_now e),
           vr_metadata = Some (er_metadata x)\<rparr>)"
  using assms
  by (simp add: ls_verifyBiometric_def verifyBiometric_def ls_retrieveEnrollment_def
      data_of_def ls_log_step Let_def)

text \<open>
  Claim C6, as the code has it. In both classes: when nothing is stored under the key of
  \<open>userId\<close> (localStorage: nothing, or a text that does not parse), \<open>verifyBiometric\<close> returns
  \<open>success: false, verified: false\<close> and the storage, with every log in it, is unchanged;
  when an enrollment record is stored under that key and the user's log key can take a
  log, it returns \<open>success: true\<close> with \<open>verified\<close> equal to
  \<open>compareHashes(storedHash, providedHash)\<close>, and the only change to the storage is that
  one entry recording that outcome is appended to the user's log (cut to the last 100),
  for match and mismatch alike. Both classes keep records and logs in one key space
  (\<open>userId\<close> and \<open>userId + '_log'\<close>; \<open>'biometric-user-' + userId\<close> and \<open>userId + '_log'\<close>); what
  happens when the key of one user is the log key of another is shown after the theorem.
\<close>

theorem verifyBiometric_logs_when_enrolled:
  "(map_of s u = None \<longrightarrow>
      mem_verifyBiometric e s u h = (s, Inr (not_verified ''User not found''))) \<and>
   (map_of s u = Some (Enc x) \<and> mem_loggable s u \<longrightarrow>
      (\<exists>s' r. mem_verifyBiometric e s u h = (s', Inr r) \<and> vr_success r \<and>
         vr_verified r = compareHashes (er_hash (enc_payload x)) h \<and>
         s' = AList.update (u @ ''_log'')
                (Arr (slice_last 100 (mem_log_of s u @ [make_entry e u (vr_verified r)]))) s \<and>
         mem_getVerificationHistory s' u =
           Arr (slice_last 100 (mem_log_of s u @ [make_entry e u (vr_verified r)])))) \<and>
   (map_of t (user_key u) = None \<longrightarrow>
      ls_verifyBiometric e t u h = (t, Inr (not_verified ''User not found''))) \<and>
   (map_of t (user_key u) = Some JCorrupt \<longrightarrow>
      ls_verifyBiometric e t u h = (t, Inr (not_verified ''Corrupt enrollment data''))) \<and>
   (map_of t (user_key u) = Some (JRecord y) \<and> ls_loggable t u \<longrightarrow>
      (\<exists>t' r. ls_verifyBiometric e t u h = (t', Inr r) \<and> vr_success r \<and>
         vr_verified r = compareHashes (er_hash y) h \<and>
         t' = AList.update (u @ ''_log'')
                (JLog (slice_last 100 (ls_log_of t u @ [make_entry e u (vr_verified r)]))) t \<and>
         ls_getVerificationHistory t' u =
           JLog (slice_last 100 (ls_log_of t u @ [make_entry e u (vr_verified r)]))))"
proof (intro conjI impI)
  assume "map_of s u = None"
  then show "mem_verifyBiometric e s u h = (s, Inr (not_verified ''User not found''))"
    by (rule mem_verify_unenrolled)
next
  assume h: "map_of s u = Some (Enc x) \<and> mem_loggable s u"
  let ?m = "compareHashes (er_hash (enc_payload x)) h"
  let ?s' = "AList.update (u @ ''_log'') (Arr (slice_last 100 (mem_log_of s u @ [make_entry e u ?m]))) s"
  have hist: "mem_getVerificationHistory ?s' u = Arr (slice_last 100 (mem_log_of s u @ [make_entry e u ?m]))"
    using mem_log_after_update [of u _ s] by (simp add: mem_history_log_of)
  show "\<exists>s' r. mem_verifyBiometric e s u h = (s', Inr r) \<and> vr_success r \<and>
         vr_verified r = compareHashes (er_hash (enc_payload x)) h \<and>
         s' = AList.update (u @ ''_log'')
                (Arr (slice_last 100 (mem_log_of s u @ [make_entry e u (vr_verified r)]))) s \<and>
         mem_getVerificationHistory s' u =
           Arr (slice_last 100 (mem_log_of s u @ [make_entry e u (vr_verified r)]))"
    using mem_verify_enrolled [of s u x e h] h hist by (simp add: push_capped_slice)
next
  assume "map_of t (user_key u) = None"
  then show "ls_verifyBiometric e t u h = (t, Inr (not_verified ''User not found''))"
    by (rule ls_verify_unenrolled)
next
  assume "map_of t (user_key u) = Some JCorrupt"
  then show "ls_verifyBiometric e t u h = (t, Inr (not_verified ''Corrupt enrollment data''))"
    by (rule ls_verify_corrupt)
next
  assume h: "map_of t (user_key u) = Some (JRecord y) \<and> ls_loggable t u"
  let ?m = "compareHashes (er_hash y) h"
  let ?t' = "AList.update (u @ ''_log'') (JLog (slice_last 100 (ls_log_of t u @ [make_entry e u ?m]))) t"
  have hist: "ls_getVerificationHistory ?t' u = JLog (slice_last 100 (ls_log_of t u @ [make_entry e u ?m]))"
    using ls_log_after_update [of u _ t] by (simp add: ls_history_log_of)
  show "\<exists>t' r. ls_verifyBiometric e t u h = (t', Inr r) \<and> vr_success r \<and>
         vr_verified r = compareHashes (er_hash y) h \<and>
         t' = AList.update (u @ ''_log'')
                (JLog (slice_last 100 (ls_log_of t u @ [make_entry e u (vr_verified r)]))) t \<and>
         ls_getVerificationHistory t' u =
           JLog (slice_last 100 (ls_log_of t u @ [make_entry e u (vr_verified r)]))"
    using ls_verify_enrolled [of t u y e h] h hist by (simp add: push_capped_slice)
qed


theorem verifyBiometric_logs_when_enrolled_witness:
  "mem_verifyBiometric (demo_env 2) [] ''bob'' ''ab12'' = ([], Inr (not_verified ''User not found'')) \<and>
   (\<exists>s' r. mem_verifyBiometric (demo_env 2) (fst (mem_storeEnrollment (demo_env 1) [] ''bob'' demo_data))
               ''bob'' ''ab12'' = (s', Inr r) \<and> vr_success r \<and> vr_verified r \<and>
      mem_getVerificationHistory s' ''bob'' = Arr [make_entry (demo_env 2) ''bob'' True]) \<and>
   ls_verifyBiometric (demo_env 2) [] ''bob'' ''ab12'' = ([], Inr (not_verified ''User not found'')) \<and>
   ls_verifyBiometric (demo_env 2) [(user_key ''bob'', JCorrupt)] ''bob'' ''ab12'' =
     ([(user_key ''bob'', JCorrupt)], Inr (not_verified ''Corrupt enrollment data'')) \<and>
   (\<exists>t' r. ls_verifyBiometric (demo_env 2) (fst (ls_storeEnrollment (demo_env 1) [] ''bob'' demo_data))
               ''bob'' ''ab13'' = (t', Inr r) \<and> vr_success r \<and> \<not> vr_verified r \<and>
      ls_getVerificationHistory t' ''bob'' = JLog [make_entry (demo_env 2) ''bob'' False])"
proof -
  let ?s = "fst (mem_storeEnrollment (demo_env 1) [] ''bob'' demo_data)"
  let ?t = "fst (ls_storeEnrollment (demo_env 1) [] ''bob'' demo_data)"
  let ?x = "mem_encrypt (demo_env 1) (make_record (demo_env 1) ''bob'' demo_data)"
  let ?y = "make_record (demo_env 1) ''bob'' demo_data"
  have s: "map_of ?s ''bob'' = Some (Enc ?x)" "mem_loggable ?s ''bob''" "mem_log_of ?s ''bob'' = []"
    by (simp_all add: mem_storeEnrollment_def mem_loggable_def mem_log_of_def Let_def)
  have t: "map_of ?t (user_key ''bob'') = Some (JRecord ?y)" "ls_loggable ?t ''bob''"
    "ls_log_of ?t ''bob'' = []"
    by (simp_all add: ls_storeEnrollment_def ls_loggable_def ls_log_of_def user_key_def Let_def)
  have c: "compareHashes (er_hash (enc_payload ?x)) ''ab12''" "\<not> compareHashes (er_hash ?y) ''ab13''"
    by (simp_all add: compareHashes_iff mem_encrypt_def make_record_def demo_data_def)
  have m0: "map_of ([] :: mem_storage) ''bob'' = None" "map_of ([] :: localStorage) (user_key ''bob'') = None"
    "map_of [(user_key ''bob'', JCorrupt)] (user_key ''bob'') = Some JCorrupt"
    by simp_all
  note A = verifyBiometric_logs_when_enrolled
    [where s = "[]" and u = "''bob''" and e = "demo_env 2" and h = "''ab12''"
       and t = "[]" and x = ?x and y = ?y]
  note B = verifyBiometric_logs_when_enrolled
    [where s = ?s and u = "''bob''" and x = ?x and e = "demo_env 2" and h = "''ab12''"
       and t = "[(user_key ''bob'', JCorrupt)]" and y = ?y]
  note C = verifyBiometric_logs_when_enrolled
    [where s = "[]" and u = "''bob''" and e = "demo_env 2" and h = "''ab13''" and t = ?t
       and x = ?x and y = ?y]
  have p1: "mem_verifyBiometric (demo_env 2) [] ''bob'' ''ab12'' = ([], Inr (not_verified ''User not found''))"
    using A m0(1) by blast
  have p3: "ls_verifyBiometric (demo_env 2) [] ''bob'' ''ab12'' = ([], Inr (not_verified ''User not found''))"
    using A m0(2) by blast
  have p4: "ls_verifyBiometric (demo_env 2) [(user_key ''bob'', JCorrupt)] ''bob'' ''ab12'' =
     ([(user_key ''bob'', JCorrupt)], Inr (not_verified ''Corrupt enrollment data''))"
    using B m0(3) by blast
  from B s(1,2) obtain s' r where
    b: "mem_verifyBiometric (demo_env 2) ?s ''bob'' ''ab12'' = (s', Inr r)" "vr_success r"
      "vr_verified r = compareHashes (er_hash (enc_payload ?x)) ''ab12''"
      "mem_getVerificationHistory s' ''bob'' =
         Arr (slice_last 100 (mem_log_of ?s ''bob'' @ [make_entry (demo_env 2) ''bob'' (vr_verified r)]))"
    by blast
  have p2: "\<exists>s' r. mem_verifyBiometric (demo_env 2) ?s ''bob'' ''ab12'' = (s', Inr r) \<and> vr_success r \<and>
      vr_verified r \<and> mem_getVerificationHistory s' ''bob'' = Arr [make_entry (demo_env 2) ''bob'' True]"
    using b c(1) s(3) by (intro exI [of _ s'] exI [of _ r]) (simp add: slice_last_def)
  from C t(1,2) obtain t' r' where
    d: "ls_verifyBiometric (demo_env 2) ?t ''bob'' ''ab13'' = (t', Inr r')" "vr_success r'"
      "vr_verified r' = compareHashes (er_hash ?y) ''ab13''"
      "ls_getVerificationHistory t' ''bob'' =
         JLog (slice_last 100 (ls_log_of ?t ''bob'' @ [make_entry (demo_env 2) ''bob'' (vr_verified r')]))"
    by blast
  have p5: "\<exists>t' r. ls_verifyBiometric (demo_env 2) ?t ''bob'' ''ab13'' = (t', Inr r) \<and> vr_success r \<and>
      \<not> vr_verified r \<and> ls_getVerificationHistory t' ''bob'' = JLog [make_entry (demo_env 2) ''bob'' False]"
    using d c(2) t(3) by (intro exI [of _ t'] exI [of _ r']) (simp add: slice_last_def)
  show ?thesis using p1 p2 p3 p4 p5 by blast
qed

text \<open>
  The claim as stated fails in the Map class: after \<open>bob\<close> is enrolled and verified once,
  his log is stored under \<open>bob_log\<close>; no enrollment record exists for the user \<open>bob_log\<close>,
  yet \<open>retrieveEnrollment('bob_log')\<close> and \<open>verifyBiometric('bob_log', h)\<close> throw a
  \<open>TypeError\<close> instead of returning \<open>success: false\<close>. And with the users \<open>bob_log\<close> and
  \<open>bob\<close> both enrolled, \<open>verifyBiometric('bob', h)\<close> throws on \<open>log.push\<close> instead of returning
  the outcome and logging it: the value under \<open>bob_log\<close> is a record, not an array.
\<close>

theorem verifyBiometric_key_collision_counterexample:
  "snd (run mem_call [] collision_script) ! 1 =
     Verified \<lparr>vr_success = True, vr_verified = True, vr_error = None, vr_userId = Some ''bob'',
       vr_timestamp = Some 2,
       vr_metadata = Some (er_metadata (make_record (demo_env 1) ''bob'' demo_data))\<rparr> \<and>
   snd (run mem_call [] collision_script) ! 2 = Thrown (TypeError ''Cannot read properties of null'') \<and>
   snd (run mem_call [] collision_script) ! 3 = Thrown (TypeError ''Cannot read properties of null'') \<and>
   snd (run mem_call [] log_collision_script) ! 2 = Thrown (TypeError ''log.push is not a function'')"
  by code_simp

text \<open>
  Claim C7 fails in the Map class. After \<open>alice\<close> is enrolled, verified once and deleted,
  \<open>retrieveEnrollment\<close> reports that the user is not found, but \<open>getVerificationHistory\<close>
  still returns the logged attempt: \<open>deleteEnrollment\<close> deletes the key \<open>alice\<close> only, never
  \<open>alice_log\<close>. The localStorage class removes both keys, and the same calls end with
  the empty history there (in general: \<open>mem_delete_keeps_history\<close>, \<open>ls_delete_clears\<close>).
\<close>

theorem mem_delete_keeps_log:
  "snd (run mem_call [] delete_script) ! 2 =
     Deleted \<lparr>dr_success = True, dr_userId = ''alice'', dr_deleted = True\<rparr> \<and>
   snd (run mem_call [] delete_script) ! 3 = Retrieved not_found \<and>
   snd (run mem_call [] delete_script) ! 4 = History [make_entry (demo_env 2) ''alice'' True] \<and>
   snd (run ls_call [] delete_script) ! 4 = History []"
  by code_simp

text \<open>
  Claim C8 fails in the Map class. After one logged verification attempt,
  \<open>getAllEnrollments\<close> throws a \<open>TypeError\<close>: its loop walks every entry of the Map,
  \<open>decrypt\<close> returns \<open>null\<close> for the log array under \<open>alice_log\<close>, and \<open>record.userId\<close> is read
  from \<open>null\<close>. The localStorage class lists the one enrolled user on the same calls (in
  general: \<open>mem_getAllEnrollments_throws\<close>, \<open>ls_getAllEnrollments_total\<close>).
\<close>

theorem mem_getAllEnrollments_throws_after_logging:
  "snd (run mem_call [] listing_script) ! 2 = Thrown (TypeError ''Cannot read properties of null'') \<and>
   snd (run ls_call [] listing_script) ! 2 =
     Listing [summary_of (make_record (demo_env 1) ''alice'' demo_data)]"
  by code_simp

text \<open>
  Claim C9 fails. On the same calls, with the same clock and identifiers, the two classes
  are told apart twice: \<open>getAllEnrollments\<close> after a logged attempt throws in the Map class
  and returns the listing in the localStorage class; \<open>getVerificationHistory\<close> after
  \<open>deleteEnrollment\<close> returns the old log in the Map class and the empty list in the
  localStorage class.
\<close>

theorem variants_not_equivalent:
  "snd (run mem_call [] equivalence_script) \<noteq> snd (run ls_call [] equivalence_script) \<and>
   snd (run mem_call [] equivalence_script) ! 2 = Thrown (TypeError ''Cannot read properties of null'') \<and>
   snd (run ls_call [] equivalence_script) ! 2 =
     Listing [summary_of (make_record (demo_env 1) ''alice'' demo_data)] \<and>
   snd (run mem_call [] equivalence_script) ! 4 = History [make_entry (demo_env 2) ''alice'' True] \<and>
   snd (run ls_call [] equivalence_script) ! 4 = History []"
  by code_simp

text \<open>
  In general for the Map class: a logged attempt anywhere in the Map makes
  \<open>getAllEnrollments\<close> throw, and \<open>deleteEnrollment\<close> leaves the user's history as it was.
\<close>

lemma mem_getAll_loop_throws:
  "(k, Arr l) \<in> set s \<Longrightarrow>
   mem_getAll_loop s acc = Inl (TypeError ''Cannot read properties of null'')"
proof (induction s acc rule: mem_getAll_loop.induct)
  case (1 enrollments)
  then show ?case by simp
next
  case (2 userId encryptedRecord rest enrollments)
  show ?case
  proof (cases encryptedRecord)
    case (Enc x)
    then have "(k, Arr l) \<in> set rest" using "2.prems" by auto
    then show ?thesis using 2 Enc by (simp add: mem_decrypt_def)
  next
    case (Arr l')
    then show ?thesis by (simp add: mem_decrypt_def)
  qed
qed

lemma mem_getAllEnrollments_throws:
  "(k, Arr l) \<in> set s \<Longrightarrow>
   mem_getAllEnrollments s = Inl (TypeError ''Cannot read properties of null'')"
  by (simp add: mem_getAllEnrollments_def mem_getAll_loop_throws)

lemma mem_delete_keeps_history:
  "mem_getVerificationHistory (fst (mem_deleteEnrollment s u)) u = mem_getVerificationHistory s u"
  by (simp add: mem_deleteEnrollment_def mem_getVerificationHistory_def Let_def delete_conv')

text \<open>
  The localStorage class: \<open>deleteEnrollment\<close> removes the record and the log, and
  \<open>getAllEnrollments\<close> never throws and lists every stored record.
\<close>

lemma ls_delete_clears:
  assumes "ls_deleteEnrollment t u = (t', r)"
  shows "ls_retrieveEnrollment t' u = Inr not_found" "ls_getVerificationHistory t' u = JLog []"
    "dr_deleted r \<longleftrightarrow> map_of t (user_key u) \<noteq> None"
proof -
  have t': "t' = AList.delete (u @ ''_log'') (AList.delete (user_key u) t)"
    using assms by (simp add: ls_deleteEnrollment_def Let_def)
  have a: "map_of t' (user_key u) = None"
    unfolding t' by (simp add: delete_conv')
  have b: "map_of t' (u @ ''_log'') = None"
    unfolding t' by (simp add: delete_conv')
  show "ls_retrieveEnrollment t' u = Inr not_found"
    using a by (simp add: ls_retrieveEnrollment_def)
  show "ls_getVerificationHistory t' u = JLog []"
    using b by (simp add: ls_getVerificationHistory_def)
  show "dr_deleted r \<longleftrightarrow> map_of t (user_key u) \<noteq> None"
    using assms by (auto simp: ls_deleteEnrollment_def Let_def)
qed

lemma ls_getAll_loop_acc: "set acc \<subseteq> set (ls_getAll_loop t acc)"
  by (induction t acc rule: ls_getAll_loop.induct) (auto split: ls_value.splits)

lemma ls_getAll_loop_lists:
  "(user_key u, JRecord x) \<in> set t \<Longrightarrow> summary_of x \<in> set (ls_getAll_loop t acc)"
proof (induction t acc rule: ls_getAll_loop.induct)
  case (1 enrollments)
  then show ?case by simp
next
  case (2 key raw rest enrollments)
  have p: "startsWith (user_key u) ''biometric-user-''"
    by (simp add: startsWith_def user_key_def)
  show ?case
  proof (cases "(key, raw) = (user_key u, JRecord x)")
    case True
    then show ?thesis
      using p ls_getAll_loop_acc [of "enrollments @ [summary_of x]" rest] by auto
  next
    case False
    then have "(user_key u, JRecord x) \<in> set rest" using "2.prems" by auto
    then show ?thesis using 2 by (auto split: ls_value.splits)
  qed
qed

lemma ls_getAllEnrollments_total:
  "\<exists>l. ls_getAllEnrollments t = Inr l \<and>
     (\<forall>u x. (user_key u, JRecord x) \<in> set t \<longrightarrow> summary_of x \<in> set l)"
  by (simp add: ls_getAllEnrollments_def ls_getAll_loop_lists)

section \<open>Enrollment and verification end to end\<close>

lemma bufferToHex_length: "length (bufferToHex d) = 2 * length d"
  by (induction d) (simp_all add: bufferToHex_def byte_hex_length)

lemma bufferToHex_nonempty: "d \<noteq> [] \<Longrightarrow> bufferToHex d \<noteq> []"
  using bufferToHex_length [of d] by auto

lemma enrollFingerprint_success:
  assumes "cap_success c" "generate 32 r = (Inr S, r')"
    "digest ''SHA-256'' (encode (simulateBiometricExtraction c @ S)) = Some d"
  shows "enrollFingerprint C digest (Some (Inr c)) e r st username =
    (fst (sc_storeEnrollment C e st username (fingerprint_data (bufferToHex d) S)), r',
     \<lparr>en_success = True, en_error = None,
      en_data = Some \<lparr>ei_username = username, ei_type = ''fingerprint'',
        ei_hash = bufferToHex d, ei_salt = S, ei_credentialId = cap_credentialId c,
        ei_timestamp = env_now e\<rparr>\<rparr>)"
  using assms
  by (simp add: enrollFingerprint_def hashWithSalt_def hash_def fingerprint_data_def
      simulateBiometricExtraction_def Let_def split_beta)

lemma verify_steps_found:
  assumes "sc_retrieveEnrollment C st u = Inr \<lparr>rr_success = True, rr_error = None, rr_data = Some dat\<rparr>"
    "hashWithSalt digest T (ed_salt dat) ''SHA-256'' = Inr H"
    "sc_verifyBiometric C e st u H = (st', Inr vr)"
  shows "verify_steps C digest e st u T =
    (st', \<lparr>vf_success = True, vf_verified = compareHashes H (ed_hash dat), vf_error = None,
      vf_data = Some \<lparr>vi_success = compareHashes H (ed_hash dat), vi_username = u,
        vi_type = ''fingerprint'', vi_storedHash = ed_hash dat, vi_computedHash = H,
        vi_match = compareHashes H (ed_hash dat), vi_timestamp = env_now e\<rparr>\<rparr>)"
  using assms by (simp add: verify_steps_def Let_def)

lemma verify_steps_mismatch:
  assumes "sc_retrieveEnrollment C st u = Inr \<lparr>rr_success = True, rr_error = None, rr_data = Some dat\<rparr>"
    "hashWithSalt digest T (ed_salt dat) ''SHA-256'' \<noteq> Inr (ed_hash dat)"
  shows "\<not> vf_verified (snd (verify_steps C digest e st u T))"
proof (cases "hashWithSalt digest T (ed_salt dat) ''SHA-256''")
  case (Inl err)
  then show ?thesis using assms(1) by (simp add: verify_steps_def verify_failed_def)
next
  case (Inr H)
  then have ne: "H \<noteq> ed_hash dat" using assms(2) by simp
  obtain st' res where v: "sc_verifyBiometric C e st u H = (st', res)"
    by (cases "sc_verifyBiometric C e st u H")
  show ?thesis
    using assms(1) Inr v ne
    by (cases res) (simp_all add: verify_steps_def verify_failed_def Let_def compareHashes_iff)
qed

lemma user_key_not_log: "user_key u \<noteq> u @ ''_log''"
proof
  assume "user_key u = u @ ''_log''"
  then have "length (user_key u) = length (u @ ''_log'')" by simp
  then show False by (simp add: user_key_def)
qed

lemma mem_store_state:
  "fst (mem_storeEnrollment e s u bd) =
   AList.update u (Enc (mem_encrypt e (make_record e u bd))) s"
  by (simp add: mem_storeEnrollment_def Let_def)

lemma ls_store_state:
  "fst (ls_storeEnrollment e t u bd) = AList.update (user_key u) (JRecord (make_record e u bd)) t"
  by (simp add: ls_storeEnrollment_def Let_def)

lemma mem_retrieve_after_store:
  "mem_retrieveEnrollment (fst (mem_storeEnrollment e s u bd)) u =
   Inr \<lparr>rr_success = True, rr_error = None, rr_data = Some (data_of (make_record e u bd))\<rparr>"
  by (simp add: mem_store_state mem_retrieveEnrollment_def update_conv' mem_decrypt_def
      mem_encrypt_def)

lemma ls_retrieve_after_store:
  "ls_retrieveEnrollment (fst (ls_storeEnrollment e t u bd)) u =
   Inr \<lparr>rr_success = True, rr_error = None, rr_data = Some (data_of (make_record e u bd))\<rparr>"
  by (simp add: ls_store_state ls_retrieveEnrollment_def update_conv')

lemma mem_loggable_after_store:
  "mem_loggable (fst (mem_storeEnrollment e s u bd)) u = mem_loggable s u"
  by (simp add: mem_store_state mem_loggable_def update_conv')

lemma ls_loggable_after_store:
  "ls_loggable (fst (ls_storeEnrollment e t u bd)) u = ls_loggable t u"
  using user_key_not_log [of u]
  by (simp add: ls_store_state ls_loggable_def update_conv')

lemma mem_verify_after_store:
  assumes "mem_loggable s u"
  shows "\<exists>s' vr. mem_verifyBiometric e' (fst (mem_storeEnrollment e s u bd)) u h = (s', Inr vr)"
proof -
  let ?s1 = "fst (mem_storeEnrollment e s u bd)"
  have a: "map_of ?s1 u = Some (Enc (mem_encrypt e (make_record e u bd)))"
    by (simp add: mem_store_state update_conv')
  have b: "mem_loggable ?s1 u" using assms by (simp add: mem_loggable_after_store)
  show ?thesis using mem_verify_enrolled [OF a b] by blast
qed

lemma ls_verify_after_store:
  assumes "ls_loggable t u"
  shows "\<exists>t' vr. ls_verifyBiometric e' (fst (ls_storeEnrollment e t u bd)) u h = (t', Inr vr)"
proof -
  let ?t1 = "fst (ls_storeEnrollment e t u bd)"
  have a: "map_of ?t1 (user_key u) = Some (JRecord (make_record e u bd))"
    by (simp add: ls_store_state update_conv')
  have b: "ls_loggable ?t1 u" using assms by (simp add: ls_loggable_after_store)
  show ?thesis using ls_verify_enrolled [OF a b] by blast
qed

lemma data_of_fingerprint:
  "ed_hash (data_of (make_record e u (fingerprint_data H S))) = H"
  "ed_salt (data_of (make_record e u (fingerprint_data H S))) = S"
  by (simp_all add: data_of_def make_record_def fingerprint_data_def)

text \<open>The round trip over any storage class that returns what was stored and logs the attempt.\<close>

lemma round_trip:
  assumes cap: "cap_success c1" "cap_success c2"
    and salt: "generate 32 r = (Inr S, r')"
    and dig: "digest ''SHA-256'' (encode (simulateBiometricExtraction c1 @ S)) = Some d" "d \<noteq> []"
    and st1: "st1 = fst (sc_storeEnrollment C e1 st username (fingerprint_data (bufferToHex d) S))"
    and retr: "sc_retrieveEnrollment C st1 username =
        Inr \<lparr>rr_success = True, rr_error = None,
          rr_data = Some (data_of (make_record e1 username (fingerprint_data (bufferToHex d) S)))\<rparr>"
    and ver: "\<exists>st2 vr. sc_verifyBiometric C e2 st1 username (bufferToHex d) = (st2, Inr vr)"
  shows "\<exists>res. enrollFingerprint C digest (Some (Inr c1)) e1 r st username = (st1, r', res) \<and>
           en_success res \<and> map_option ei_hash (en_data res) = Some (bufferToHex d) \<and>
           map_option ei_salt (en_data res) = Some S"
    and "\<exists>st2 v. verifyFingerprint C digest (Some (Inr c2)) e2 st1 username = (st2, v) \<and>
           vf_success v \<and> vf_verified v"
    and "\<forall>T'. hashWithSalt digest T' S ''SHA-256'' \<noteq> Inr (bufferToHex d) \<longrightarrow>
           \<not> vf_verified (snd (verify_steps C digest e2 st1 username T'))"
proof -
  let ?dat = "data_of (make_record e1 username (fingerprint_data (bufferToHex d) S))"
  have hs: "ed_hash ?dat = bufferToHex d" "ed_salt ?dat = S" by (simp_all add: data_of_fingerprint)
  show "\<exists>res. enrollFingerprint C digest (Some (Inr c1)) e1 r st username = (st1, r', res) \<and>
           en_success res \<and> map_option ei_hash (en_data res) = Some (bufferToHex d) \<and>
           map_option ei_salt (en_data res) = Some S"
    using enrollFingerprint_success [where digest = digest and c = c1 and C = C and e = e1
        and st = st and username = username, OF cap(1) salt dig(1)] st1 by simp
  have same: "simulateBiometricExtraction c2 = simulateBiometricExtraction c1"
    by (simp add: simulateBiometricExtraction_def)
  have h: "hashWithSalt digest (simulateBiometricExtraction c2) (ed_salt ?dat) ''SHA-256'' = Inr (bufferToHex d)"
    using dig(1) by (simp add: hs same hashWithSalt_def hash_def)
  from ver obtain st2 vr where v: "sc_verifyBiometric C e2 st1 username (bufferToHex d) = (st2, Inr vr)"
    by blast
  have m: "compareHashes (bufferToHex d) (ed_hash ?dat)"
    using bufferToHex_nonempty [OF dig(2)] by (simp add: hs compareHashes_iff)
  show "\<exists>st2 v. verifyFingerprint C digest (Some (Inr c2)) e2 st1 username = (st2, v) \<and>
           vf_success v \<and> vf_verified v"
    using verify_steps_found [where digest = digest, OF retr h v] m cap(2)
    by (simp add: verifyFingerprint_def)
  show "\<forall>T'. hashWithSalt digest T' S ''SHA-256'' \<noteq> Inr (bufferToHex d) \<longrightarrow>
           \<not> vf_verified (snd (verify_steps C digest e2 st1 username T'))"
    using verify_steps_mismatch [where digest = digest and e = e2, OF retr] by (simp add: hs)
qed


text \<open>
  When the verification reads the storage the enrollment wrote, capture succeeds in both
  runs and the platform digest returns a non-empty digest \<open>d\<close> for \<open>SHA-256\<close> on the template
  followed by the salt, then, in either class and for every username whose log key can
  take a log: enrollment draws a fresh 32-byte salt \<open>S\<close> (64 hexadecimal characters),
  computes \<open>H\<close> as the hexadecimal digest of the stub's constant template followed by \<open>S\<close> and
  stores \<open>H\<close> and \<open>S\<close> for the user; the verification recomputes \<open>H\<close> and reports
  \<open>verified: true\<close>; and the verification steps on a template whose salted hash is not \<open>H\<close>
  report \<open>verified: false\<close>.
\<close>

lemma round_trip_when_shared:
  assumes "cap_success c1" "cap_success c2"
    and "generate 32 r = (Inr S, r')"
    and "digest ''SHA-256'' (encode (simulateBiometricExtraction c1 @ S)) = Some d" "d \<noteq> []"
  shows
    "simulateBiometricExtraction c1 = ''demo-static-biometric-template'' \<and>
     length S = 64 \<and> hex_string S \<and> rng_drawn r' = rng_drawn r + 32 \<and>
     (mem_loggable s username \<longrightarrow>
        (\<exists>s1 res dat s2 v.
           enrollFingerprint mem_class digest (Some (Inr c1)) e1 r s username = (s1, r', res) \<and>
           en_success res \<and> map_option ei_hash (en_data res) = Some (bufferToHex d) \<and>
           map_option ei_salt (en_data res) = Some S \<and>
           mem_retrieveEnrollment s1 username =
             Inr \<lparr>rr_success = True, rr_error = None, rr_data = Some dat\<rparr> \<and>
           ed_hash dat = bufferToHex d \<and> ed_salt dat = S \<and>
           verifyFingerprint mem_class digest (Some (Inr c2)) e2 s1 username = (s2, v) \<and>
           vf_success v \<and> vf_verified v \<and>
           (\<forall>T'. hashWithSalt digest T' S ''SHA-256'' \<noteq> Inr (bufferToHex d) \<longrightarrow>
              \<not> vf_verified (snd (verify_steps mem_class digest e2 s1 username T'))))) \<and>
     (ls_loggable t username \<longrightarrow>
        (\<exists>t1 res dat t2 v.
           enrollFingerprint ls_class digest (Some (Inr c1)) e1 r t username = (t1, r', res) \<and>
           en_success res \<and> map_option ei_hash (en_data res) = Some (bufferToHex d) \<and>
           map_option ei_salt (en_data res) = Some S \<and>
           ls_retrieveEnrollment t1 username =
             Inr \<lparr>rr_success = True, rr_error = None, rr_data = Some dat\<rparr> \<and>
           ed_hash dat = bufferToHex d \<and> ed_salt dat = S \<and>
           verifyFingerprint ls_class digest (Some (Inr c2)) e2 t1 username = (t2, v) \<and>
           vf_success v \<and> vf_verified v \<and>
           (\<forall>T'. hashWithSalt digest T' S ''SHA-256'' \<noteq> Inr (bufferToHex d) \<longrightarrow>
              \<not> vf_verified (snd (verify_steps ls_class digest e2 t1 username T')))))"
proof (intro conjI impI)
  show "simulateBiometricExtraction c1 = ''demo-static-biometric-template''"
    by (simp add: simulateBiometricExtraction_def)
  show "length S = 64" "hex_string S" "rng_drawn r' = rng_drawn r + 32"
    using generate_salt [OF _ _ assms(3)] by simp_all
next
  assume lg: "mem_loggable s username"
  let ?bd = "fingerprint_data (bufferToHex d) S"
  let ?s1 = "fst (sc_storeEnrollment mem_class e1 s username ?bd)"
  have eq: "?s1 = fst (mem_storeEnrollment e1 s username ?bd)" by (simp add: mem_class_def)
  have retr: "sc_retrieveEnrollment mem_class ?s1 username =
      Inr \<lparr>rr_success = True, rr_error = None, rr_data = Some (data_of (make_record e1 username ?bd))\<rparr>"
    by (simp add: mem_class_def mem_retrieve_after_store)
  have ver: "\<exists>st2 vr. sc_verifyBiometric mem_class e2 ?s1 username (bufferToHex d) = (st2, Inr vr)"
    using mem_verify_after_store [OF lg] by (simp add: mem_class_def)
  note rt = round_trip [where C = mem_class and digest = digest and ?e1.0 = e1 and ?e2.0 = e2
      and st = s and username = username and ?st1.0 = ?s1,
      OF assms(1,2,3,4,5) refl retr ver]
  from rt(1) obtain res where
    a: "enrollFingerprint mem_class digest (Some (Inr c1)) e1 r s username = (?s1, r', res)"
      "en_success res" "map_option ei_hash (en_data res) = Some (bufferToHex d)"
      "map_option ei_salt (en_data res) = Some S" by blast
  from rt(2) obtain s2 v where
    b: "verifyFingerprint mem_class digest (Some (Inr c2)) e2 ?s1 username = (s2, v)"
      "vf_success v" "vf_verified v" by blast
  have c: "mem_retrieveEnrollment ?s1 username =
      Inr \<lparr>rr_success = True, rr_error = None, rr_data = Some (data_of (make_record e1 username ?bd))\<rparr>"
    using retr by (simp add: mem_class_def)
  show "\<exists>s1 res dat s2 v.
           enrollFingerprint mem_class digest (Some (Inr c1)) e1 r s username = (s1, r', res) \<and>
           en_success res \<and> map_option ei_hash (en_data res) = Some (bufferToHex d) \<and>
           map_option ei_salt (en_data res) = Some S \<and>
           mem_retrieveEnrollment s1 username =
             Inr \<lparr>rr_success = True, rr_error = None, rr_data = Some dat\<rparr> \<and>
           ed_hash dat = bufferToHex d \<and> ed_salt dat = S \<and>
           verifyFingerprint mem_class digest (Some (Inr c2)) e2 s1 username = (s2, v) \<and>
           vf_success v \<and> vf_verified v \<and>
           (\<forall>T'. hashWithSalt digest T' S ''SHA-256'' \<noteq> Inr (bufferToHex d) \<longrightarrow>
              \<not> vf_verified (snd (verify_steps mem_class digest e2 s1 username T')))"
    using a b c rt(3) data_of_fingerprint [of e1 username "bufferToHex d" S]
    by (intro exI [of _ ?s1] exI [of _ res]
        exI [of _ "data_of (make_record e1 username ?bd)"] exI [of _ s2] exI [of _ v]) simp
next
  assume lg: "ls_loggable t username"
  let ?bd = "fingerprint_data (bufferToHex d) S"
  let ?t1 = "fst (sc_storeEnrollment ls_class e1 t username ?bd)"
  have retr: "sc_retrieveEnrollment ls_class ?t1 username =
      Inr \<lparr>rr_success = True, rr_error = None, rr_data = Some (data_of (make_record e1 username ?bd))\<rparr>"
    by (simp add: ls_class_def ls_retrieve_after_store)
  have ver: "\<exists>st2 vr. sc_verifyBiometric ls_class e2 ?t1 username (bufferToHex d) = (st2, Inr vr)"
    using ls_verify_after_store [OF lg] by (simp add: ls_class_def)
  note rt = round_trip [where C = ls_class and digest = digest and ?e1.0 = e1 and ?e2.0 = e2
      and st = t and username = username and ?st1.0 = ?t1,
      OF assms(1,2,3,4,5) refl retr ver]
  from rt(1) obtain res where
    a: "enrollFingerprint ls_class digest (Some (Inr c1)) e1 r t username = (?t1, r', res)"
      "en_success res" "map_option ei_hash (en_data res) = Some (bufferToHex d)"
      "map_option ei_salt (en_data res) = Some S" by blast
  from rt(2) obtain t2 v where
    b: "verifyFingerprint ls_class digest (Some (Inr c2)) e2 ?t1 username = (t2, v)"
      "vf_success v" "vf_verified v" by blast
  have c: "ls_retrieveEnrollment ?t1 username =
      Inr \<lparr>rr_success = True, rr_error = None, rr_data = Some (data_of (make_record e1 username ?bd))\<rparr>"
    using retr by (simp add: ls_class_def)
  show "\<exists>t1 res dat t2 v.
           enrollFingerprint ls_class digest (Some (Inr c1)) e1 r t username = (t1, r', res) \<and>
           en_success res \<and> map_option ei_hash (en_data res) = Some (bufferToHex d) \<and>
           map_option ei_salt (en_data res) = Some S \<and>
           ls_retrieveEnrollment t1 username =
             Inr \<lparr>rr_success = True, rr_error = None, rr_data = Some dat\<rparr> \<and>
           ed_hash dat = bufferToHex d \<and> ed_salt dat = S \<and>
           verifyFingerprint ls_class digest (Some (Inr c2)) e2 t1 username = (t2, v) \<and>
           vf_success v \<and> vf_verified v \<and>
           (\<forall>T'. hashWithSalt digest T' S ''SHA-256'' \<noteq> Inr (bufferToHex d) \<longrightarrow>
              \<not> vf_verified (snd (verify_steps ls_class digest e2 t1 username T')))"
    using a b c rt(3) data_of_fingerprint [of e1 username "bufferToHex d" S]
    by (intro exI [of _ ?t1] exI [of _ res]
        exI [of _ "data_of (make_record e1 username ?bd)"] exI [of _ t2] exI [of _ v]) simp
qed


lemma mem_verify_log_collision:
  assumes "map_of s u = Some (Enc x)" "\<not> mem_loggable s u"
  shows "mem_verifyBiometric e s u h = (s, Inl (TypeError ''log.push is not a function''))"
  using assms
  by (simp add: mem_verifyBiometric_def verifyBiometric_def mem_retrieveEnrollment_def
      mem_decrypt_def mem_log_throws Let_def)

lemma ls_verify_log_collision:
  assumes "map_of t (user_key u) = Some (JRecord x)" "\<not> ls_loggable t u"
  shows "ls_verifyBiometric e t u h = (t, Inl (TypeError ''log.push is not a function''))"
  using assms
  by (simp add: ls_verifyBiometric_def verifyBiometric_def ls_retrieveEnrollment_def
      ls_log_throws Let_def)

lemma verify_steps_throws:
  assumes "sc_retrieveEnrollment C st u = Inr \<lparr>rr_success = True, rr_error = None, rr_data = Some dat\<rparr>"
    "hashWithSalt digest T (ed_salt dat) ''SHA-256'' = Inr H"
    "sc_verifyBiometric C e st u H = (st', Inl err)"
  shows "verify_steps C digest e st u T = (st', verify_failed err)"
  using assms by (simp add: verify_steps_def Let_def)

lemma demo_digest_sha256:
  "demo_digest ''SHA-256'' buffer = Some (take 32 (buffer @ replicate 32 0))"
  "take 32 (buffer @ replicate 32 (0::byte)) \<noteq> []"
proof -
  show "demo_digest ''SHA-256'' buffer = Some (take 32 (buffer @ replicate 32 0))"
    by (simp add: demo_digest_def)
  have "length (take 32 (buffer @ replicate 32 (0::byte))) = 32" by simp
  then show "take 32 (buffer @ replicate 32 (0::byte)) \<noteq> []" by auto
qed

lemma demo_enroll:
  "\<exists>S r' d. generate 32 r = (Inr S, r') \<and> d \<noteq> [] \<and>
     demo_digest ''SHA-256'' (encode (''demo-static-biometric-template'' @ S)) = Some d \<and>
     enrollFingerprint C demo_digest demo_capture e r st username =
       (fst (sc_storeEnrollment C e st username (fingerprint_data (bufferToHex d) S)), r',
        \<lparr>en_success = True, en_error = None,
         en_data = Some \<lparr>ei_username = username, ei_type = ''fingerprint'',
           ei_hash = bufferToHex d, ei_salt = S, ei_credentialId = ''cred-1'',
           ei_timestamp = env_now e\<rparr>\<rparr>)"
proof -
  let ?c = "\<lparr>cap_success = True, cap_error = [], cap_credentialId = ''cred-1''\<rparr>"
  obtain S r' where g: "generate 32 r = (Inr S, r')"
    using generate_in_range [of 32 r] by simp
  let ?d = "take 32 (encode (''demo-static-biometric-template'' @ S) @ replicate 32 (0::byte))"
  have d: "demo_digest ''SHA-256'' (encode (simulateBiometricExtraction ?c @ S)) = Some ?d"
    by (simp add: demo_digest_sha256 simulateBiometricExtraction_def)
  have "enrollFingerprint C demo_digest (Some (Inr ?c)) e r st username =
       (fst (sc_storeEnrollment C e st username (fingerprint_data (bufferToHex ?d) S)), r',
        \<lparr>en_success = True, en_error = None,
         en_data = Some \<lparr>ei_username = username, ei_type = ''fingerprint'',
           ei_hash = bufferToHex ?d, ei_salt = S, ei_credentialId = cap_credentialId ?c,
           ei_timestamp = env_now e\<rparr>\<rparr>)"
    by (rule enrollFingerprint_success [where digest = demo_digest and c = ?c, OF _ g d]) simp
  then show ?thesis
    using g demo_digest_sha256 [of "encode (''demo-static-biometric-template'' @ S)"]
    by (intro exI [of _ S] exI [of _ r'] exI [of _ ?d]) (simp add: demo_capture_def)
qed

text \<open>
  A username whose log key holds another user's record: in the Map class, with the
  users \<open>alice_log\<close> and \<open>alice\<close> both enrolled, the verification of \<open>alice\<close> computes the
  matching hash, but \<open>storage.verifyBiometric\<close> throws on \<open>log.push\<close> (the value under
  \<open>alice_log\<close> is a record, not an array), the \<open>catch\<close> of \<open>verifyFingerprint\<close> takes over,
  and the run reports \<open>verified: false\<close>.
\<close>

lemma round_trip_key_collision:
  "en_success (fst (enroll_enroll_verify mem_class [] ''alice_log'' ''alice'')) \<and>
   \<not> vf_verified (snd (enroll_enroll_verify mem_class [] ''alice_log'' ''alice'')) \<and>
   vf_error (snd (enroll_enroll_verify mem_class [] ''alice_log'' ''alice'')) =
     Some ''log.push is not a function''"
proof -
  let ?T = "''demo-static-biometric-template''"
  obtain S1 r1 d1 where
    e1: "enrollFingerprint mem_class demo_digest demo_capture (demo_env 1) demo_rng [] ''alice_log'' =
       (fst (sc_storeEnrollment mem_class (demo_env 1) [] ''alice_log''
          (fingerprint_data (bufferToHex d1) S1)), r1,
        \<lparr>en_success = True, en_error = None,
         en_data = Some \<lparr>ei_username = ''alice_log'', ei_type = ''fingerprint'',
           ei_hash = bufferToHex d1, ei_salt = S1, ei_credentialId = ''cred-1'',
           ei_timestamp = env_now (demo_env 1)\<rparr>\<rparr>)"
    using demo_enroll [of demo_rng mem_class "demo_env 1" "[]" "''alice_log''"] by blast
  define s1 where "s1 = fst (mem_storeEnrollment (demo_env 1) [] ''alice_log''
          (fingerprint_data (bufferToHex d1) S1))"
  obtain S2 r2 d2 where
    d2: "demo_digest ''SHA-256'' (encode (?T @ S2)) = Some d2" and
    e2: "enrollFingerprint mem_class demo_digest demo_capture (demo_env 2) r1 s1 ''alice'' =
       (fst (sc_storeEnrollment mem_class (demo_env 2) s1 ''alice''
          (fingerprint_data (bufferToHex d2) S2)), r2,
        \<lparr>en_success = True, en_error = None,
         en_data = Some \<lparr>ei_username = ''alice'', ei_type = ''fingerprint'',
           ei_hash = bufferToHex d2, ei_salt = S2, ei_credentialId = ''cred-1'',
           ei_timestamp = env_now (demo_env 2)\<rparr>\<rparr>)"
    using demo_enroll [of r1 mem_class "demo_env 2" s1 "''alice''"] by blast
  let ?bd2 = "fingerprint_data (bufferToHex d2) S2"
  define s2 where "s2 = fst (mem_storeEnrollment (demo_env 2) s1 ''alice'' ?bd2)"
  let ?dat = "data_of (make_record (demo_env 2) ''alice'' ?bd2)"
  have retr: "sc_retrieveEnrollment mem_class s2 ''alice'' =
      Inr \<lparr>rr_success = True, rr_error = None, rr_data = Some ?dat\<rparr>"
    by (simp add: s2_def mem_class_def mem_retrieve_after_store)
  have h: "hashWithSalt demo_digest ?T (ed_salt ?dat) ''SHA-256'' = Inr (bufferToHex d2)"
    using d2 by (simp add: data_of_fingerprint hashWithSalt_def hash_def)
  have rec: "map_of s2 ''alice'' =
      Some (Enc (mem_encrypt (demo_env 2) (make_record (demo_env 2) ''alice'' ?bd2)))"
    by (simp add: s2_def mem_store_state update_conv')
  have "map_of s2 ''alice_log'' = map_of s1 ''alice_log''"
    by (simp add: s2_def mem_store_state update_conv')
  then have nl: "\<not> mem_loggable s2 ''alice''"
    by (simp add: s1_def mem_store_state mem_loggable_def)
  have v: "sc_verifyBiometric mem_class (demo_env 3) s2 ''alice'' (bufferToHex d2) =
      (s2, Inl (TypeError ''log.push is not a function''))"
    using mem_verify_log_collision [OF rec nl] by (simp add: mem_class_def)
  have vs: "verify_steps mem_class demo_digest (demo_env 3) s2 ''alice'' ?T =
      (s2, verify_failed (TypeError ''log.push is not a function''))"
    by (rule verify_steps_throws [OF retr h v])
  have e3: "verifyFingerprint mem_class demo_digest demo_capture (demo_env 3) s2 ''alice'' =
      (s2, verify_failed (TypeError ''log.push is not a function''))"
    using vs by (simp add: verifyFingerprint_def demo_capture_def simulateBiometricExtraction_def)
  have e1': "enrollFingerprint mem_class demo_digest demo_capture (demo_env 1) demo_rng [] ''alice_log'' =
       (s1, r1,
        \<lparr>en_success = True, en_error = None,
         en_data = Some \<lparr>ei_username = ''alice_log'', ei_type = ''fingerprint'',
           ei_hash = bufferToHex d1, ei_salt = S1, ei_credentialId = ''cred-1'',
           ei_timestamp = env_now (demo_env 1)\<rparr>\<rparr>)"
    using e1 by (simp add: s1_def mem_class_def)
  have e2': "enrollFingerprint mem_class demo_digest demo_capture (demo_env 2) r1 s1 ''alice'' =
       (s2, r2,
        \<lparr>en_success = True, en_error = None,
         en_data = Some \<lparr>ei_username = ''alice'', ei_type = ''fingerprint'',
           ei_hash = bufferToHex d2, ei_salt = S2, ei_credentialId = ''cred-1'',
           ei_timestamp = env_now (demo_env 2)\<rparr>\<rparr>)"
    using e2 by (simp add: s2_def mem_class_def)
  show ?thesis
    unfolding enroll_enroll_verify_def e1' Let_def prod.case e2' e3
    by (simp add: verify_failed_def message_def)
qed

lemma register_fresh:
  "register (new_WebAuthnHandler True) (Inr ''cred-1'') username =
     (\<lparr>wh_isSupported = True, wh_credentials = [(''cred-1'', username)]\<rparr>, Inr demo_credential)"
  by (simp add: register_def new_WebAuthnHandler_def demo_credential_def)

lemma authenticate_fresh:
  "authenticate (new_WebAuthnHandler True) (Inr ''cred-1'') =
     Inr \<lparr>cap_success = False, cap_error = ''Credential not found'', cap_credentialId = []\<rparr>"
  by (simp add: authenticate_def new_WebAuthnHandler_def)

lemma authenticate_registered:
  "authenticate \<lparr>wh_isSupported = True, wh_credentials = [(''cred-1'', username)]\<rparr> (Inr ''cred-1'') =
     Inr demo_credential"
  by (simp add: authenticate_def demo_credential_def)

lemma verify_capture_failed:
  "verifyFingerprint C digest
     (Some (Inr \<lparr>cap_success = False, cap_error = err, cap_credentialId = []\<rparr>)) e st username =
   (st, verify_failed (Error err))"
  by (simp add: verifyFingerprint_def)

lemma mem_verify_empty:
  "verifyFingerprint mem_class digest (Some (Inr demo_credential)) e mem_new_storage username =
   (mem_new_storage, verify_failed (Error ''User not enrolled''))"
  by (simp add: verifyFingerprint_def verify_steps_def mem_class_def mem_retrieveEnrollment_def
      mem_new_storage_def not_found_def demo_credential_def)

lemma demo_enroll_credential:
  "\<exists>S r' d. generate 32 r = (Inr S, r') \<and> d \<noteq> [] \<and>
     demo_digest ''SHA-256'' (encode (simulateBiometricExtraction demo_credential @ S)) = Some d \<and>
     enrollFingerprint C demo_digest (Some (Inr demo_credential)) e r st username =
       (fst (sc_storeEnrollment C e st username (fingerprint_data (bufferToHex d) S)), r',
        \<lparr>en_success = True, en_error = None,
         en_data = Some \<lparr>ei_username = username, ei_type = ''fingerprint'',
           ei_hash = bufferToHex d, ei_salt = S, ei_credentialId = ''cred-1'',
           ei_timestamp = env_now e\<rparr>\<rparr>)"
  using demo_enroll [of r C e st username]
  by (simp add: demo_capture_def demo_credential_def simulateBiometricExtraction_def)

text \<open>
  Claim C1 fails on the code as it is built. Each simulation's \<open>init()\<close> makes its own
  \<open>WebAuthnHandler\<close> and its own \<open>BiometricStorage\<close>. After a successful enrollment of
  \<open>alice\<close>, the verification simulation's handler holds no credential, so \<open>authenticate\<close>
  answers \<open>Credential not found\<close> and \<open>verifyFingerprint\<close> reports \<open>verified: false\<close>, in
  both storage classes. Given the handler that registered the credential, the
  verification of the Map class still reads its own empty Map and reports
  \<open>User not enrolled\<close>, where the localStorage class, on the same calls, finds the record
  and reports \<open>verified: true\<close>; the Map class does so only when the caller also hands
  over the storage object of the enrollment.
\<close>

theorem round_trip_fails_as_built:
  "en_success (fst (mem_as_built False False ''alice'')) \<and>
   snd (mem_as_built False False ''alice'') = verify_failed (Error ''Credential not found'') \<and>
   en_success (fst (ls_as_built False ''alice'')) \<and>
   snd (ls_as_built False ''alice'') = verify_failed (Error ''Credential not found'') \<and>
   en_success (fst (mem_as_built True False ''alice'')) \<and>
   snd (mem_as_built True False ''alice'') = verify_failed (Error ''User not enrolled'') \<and>
   vf_verified (snd (ls_as_built True ''alice'')) \<and>
   vf_verified (snd (mem_as_built True True ''alice''))"
proof -
  have cap: "cap_success demo_credential" by (simp add: demo_credential_def)
  obtain S r' d where
    g: "generate 32 demo_rng = (Inr S, r')" and dne: "d \<noteq> []" and
    dig: "demo_digest ''SHA-256'' (encode (simulateBiometricExtraction demo_credential @ S)) = Some d"
    and em: "enrollFingerprint mem_class demo_digest (Some (Inr demo_credential)) (demo_env 1) demo_rng
        mem_new_storage ''alice'' =
       (fst (sc_storeEnrollment mem_class (demo_env 1) mem_new_storage ''alice''
          (fingerprint_data (bufferToHex d) S)), r',
        \<lparr>en_success = True, en_error = None,
         en_data = Some \<lparr>ei_username = ''alice'', ei_type = ''fingerprint'',
           ei_hash = bufferToHex d, ei_salt = S, ei_credentialId = ''cred-1'',
           ei_timestamp = env_now (demo_env 1)\<rparr>\<rparr>)"
    using demo_enroll_credential [of demo_rng mem_class "demo_env 1" mem_new_storage "''alice''"]
    by blast
  obtain S' r'' d' where
    g': "generate 32 demo_rng = (Inr S', r'')" and
    el0: "enrollFingerprint ls_class demo_digest (Some (Inr demo_credential)) (demo_env 1) demo_rng
        [] ''alice'' =
       (fst (sc_storeEnrollment ls_class (demo_env 1) [] ''alice''
          (fingerprint_data (bufferToHex d') S')), r'',
        \<lparr>en_success = True, en_error = None,
         en_data = Some \<lparr>ei_username = ''alice'', ei_type = ''fingerprint'',
           ei_hash = bufferToHex d', ei_salt = S', ei_credentialId = ''cred-1'',
           ei_timestamp = env_now (demo_env 1)\<rparr>\<rparr>)"
    using demo_enroll_credential [of demo_rng ls_class "demo_env 1" "[]" "''alice''"]
    by blast
  let ?s1 = "fst (sc_storeEnrollment mem_class (demo_env 1) mem_new_storage ''alice''
          (fingerprint_data (bufferToHex d) S))"
  let ?l1 = "fst (sc_storeEnrollment ls_class (demo_env 1) [] ''alice''
          (fingerprint_data (bufferToHex d') S'))"
  have lg: "mem_loggable mem_new_storage ''alice''" "ls_loggable [] ''alice''"
    by (simp_all add: mem_loggable_def ls_loggable_def mem_new_storage_def)
  note R = round_trip_when_shared
    [where digest = demo_digest and ?c1.0 = demo_credential and ?c2.0 = demo_credential
       and r = demo_rng and S = S and r' = r' and d = d and s = mem_new_storage and t = "[]"
       and username = "''alice''" and ?e1.0 = "demo_env 1" and ?e2.0 = "demo_env 2",
     OF cap cap g dig dne]
  from R lg(1) obtain s1 res s2 v where
    m: "enrollFingerprint mem_class demo_digest (Some (Inr demo_credential)) (demo_env 1) demo_rng
          mem_new_storage ''alice'' = (s1, r', res)"
      "verifyFingerprint mem_class demo_digest (Some (Inr demo_credential)) (demo_env 2) s1 ''alice'' = (s2, v)"
      "vf_verified v"
    by blast
  from R lg(2) obtain l1 res' l2 v' where
    l: "enrollFingerprint ls_class demo_digest (Some (Inr demo_credential)) (demo_env 1) demo_rng
          [] ''alice'' = (l1, r', res')"
      "verifyFingerprint ls_class demo_digest (Some (Inr demo_credential)) (demo_env 2) l1 ''alice'' = (l2, v')"
      "vf_verified v'"
    by blast
  have s1: "s1 = ?s1" using m(1) em by simp
  have l1: "l1 = ?l1" using l(1) el0 by simp
  have A: "mem_as_built False False ''alice'' =
      (\<lparr>en_success = True, en_error = None,
         en_data = Some \<lparr>ei_username = ''alice'', ei_type = ''fingerprint'',
           ei_hash = bufferToHex d, ei_salt = S, ei_credentialId = ''cred-1'',
           ei_timestamp = env_now (demo_env 1)\<rparr>\<rparr>,
       verify_failed (Error ''Credential not found''))"
    by (simp only: mem_as_built_def Let_def register_fresh prod.case if_False em
        authenticate_fresh verify_capture_failed)
  have B: "ls_as_built False ''alice'' =
      (\<lparr>en_success = True, en_error = None,
         en_data = Some \<lparr>ei_username = ''alice'', ei_type = ''fingerprint'',
           ei_hash = bufferToHex d', ei_salt = S', ei_credentialId = ''cred-1'',
           ei_timestamp = env_now (demo_env 1)\<rparr>\<rparr>,
       verify_failed (Error ''Credential not found''))"
    by (simp only: ls_as_built_def Let_def register_fresh prod.case if_False el0
        authenticate_fresh verify_capture_failed)
  have C: "mem_as_built True False ''alice'' =
      (\<lparr>en_success = True, en_error = None,
         en_data = Some \<lparr>ei_username = ''alice'', ei_type = ''fingerprint'',
           ei_hash = bufferToHex d, ei_salt = S, ei_credentialId = ''cred-1'',
           ei_timestamp = env_now (demo_env 1)\<rparr>\<rparr>,
       verify_failed (Error ''User not enrolled''))"
    by (simp only: mem_as_built_def Let_def register_fresh prod.case if_False if_True em
        authenticate_registered mem_verify_empty)
  have D: "snd (ls_as_built True ''alice'') = v'"
    using l(2) unfolding l1
    by (simp only: ls_as_built_def Let_def register_fresh prod.case if_True el0
        authenticate_registered snd_conv)
  have E: "snd (mem_as_built True True ''alice'') = v"
    using m(2) unfolding s1
    by (simp only: mem_as_built_def Let_def register_fresh prod.case if_True em
        authenticate_registered snd_conv)
  show ?thesis
    using m(3) l(3) by (simp only: A B C D E fst_conv snd_conv) simp
qed

end
